theory Spec2Isabelle
  imports Complex_Main "HOL-Library.AList"
begin

section \<open>The measure registry of \<^verbatim>\<open>dival/measure.py\<close>\<close>

text \<open>
  The module keeps a class-level dictionary \<^verbatim>\<open>Measure.measure_dict\<close> from short names to
  measure instances; \<^verbatim>\<open>Measure.__init__\<close> chooses the short name of a new instance, renames
  it when the name is taken, warns about the rename and stores the instance.

  Modelling decisions:
  \<^item> a Python \<^verbatim>\<open>str\<close> is a \<open>string\<close>; an optional argument or attribute that may be the
    Python value \<^verbatim>\<open>None\<close> is an \<open>option\<close>;
  \<^item> the dictionary is an association list in insertion order, read with \<open>map_of\<close> and
    written with \<open>AList.update\<close> (replace in place, or append), as a Python \<^verbatim>\<open>dict\<close> does;
  \<^item> the warnings issued by \<^verbatim>\<open>warn\<close> are collected, in order, in the state;
  \<^item> objects have an identity (\<open>ident\<close>), drawn from a counter in the state.
\<close>

subsection \<open>Strings\<close>

definition digit_char :: "nat \<Rightarrow> char" where
  "digit_char d = ''0123456789'' ! d"

text \<open>\<^verbatim>\<open>str(i)\<close> for a non-negative integer: its decimal digits.\<close>

fun str_nat :: "nat \<Rightarrow> string" where
  "str_nat n = (if n < 10 then [digit_char n] else str_nat (n div 10) @ [digit_char (n mod 10)])"

declare str_nat.simps [simp del]

text \<open>
  \<^verbatim>\<open>gen_unique_name(name_orig)\<close> is a generator whose only state is the counter \<open>i\<close>,
  starting at 1; \<open>gen_unique_name name_orig i\<close> is the value it yields when the counter
  is \<open>i\<close>: \<^verbatim>\<open>'{}_{}'.format(name_orig, str(i))\<close>.
\<close>

definition gen_unique_name :: "string \<Rightarrow> nat \<Rightarrow> string" where
  "gen_unique_name name_orig i = name_orig @ ''_'' @ str_nat i"

subsection \<open>Values\<close>

text \<open>
  A floating-point result is an exact real or one of the special values of the
  floating-point format: the infinities and not-a-number. Rounding, overflow and the
  sign of zero are not modelled, whatever the width of the format (\<^verbatim>\<open>np.log10\<close> of a scalar
  of an 8-bit or 16-bit integer type is computed in a narrower format than \<^verbatim>\<open>float64\<close>).

  An array is one-dimensional. Its element type is one of the integer types of \<^verbatim>\<open>numpy\<close>
  (a list of integers, which for an array that exists lie in the range of the type; the
  operations of \<^verbatim>\<open>numpy\<close> on such arrays wrap around in the element type) or \<^verbatim>\<open>float64\<close> (a list of reals). \<^verbatim>\<open>np.asarray\<close> of a list of Python integers
  is an \<^verbatim>\<open>int64\<close> array, and of a list of Python floats a \<^verbatim>\<open>float64\<close> array.
  What the module is called with is array-like: an array, which has no attribute
  \<^verbatim>\<open>space\<close>, or an element of a real space \<^verbatim>\<open>rn(n)\<close> of the library \<^verbatim>\<open>odl\<close>, given by its
  \<open>n\<close> entries, whose attribute \<^verbatim>\<open>space\<close> is that space.
\<close>

datatype pyfloat = Finite real | PInf | NInf | NaN

datatype int_dtype = Int8 | Int16 | Int32 | Int64 | UInt8 | UInt16 | UInt32 | UInt64

datatype ndarray = IntArray int_dtype "int list" | FloatArray "real list"

datatype array_like = NdArray ndarray | OdlElement "real list"

datatype error = TypeError | ValueError | AttributeError | OpDomainError

text \<open>The values of keyword arguments that are passed on unread.\<close>

datatype pyval = PyNone | PyBool bool | PyInt int | PyFloat real | PyStr string

subsection \<open>Classes\<close>

text \<open>
  The four built-in ways to compute a value, and a user-defined \<^verbatim>\<open>apply\<close>, which is a
  function of the two arrays.
\<close>

datatype apply_impl =
    L2_apply_impl
  | MSE_apply_impl
  | PSNR_apply_impl
  | SSIM_apply_impl
  | User_apply_impl "array_like \<Rightarrow> array_like \<Rightarrow> error + pyfloat"

text \<open>
  A class is the abstract base \<^verbatim>\<open>Measure\<close> or a subclass with its \<^verbatim>\<open>__name__\<close>, the
  \<^verbatim>\<open>short_name\<close> attribute it declares in its own body (\<open>None\<close>: it declares none;
  \<open>Some None\<close>: it declares \<^verbatim>\<open>short_name = None\<close>), the \<^verbatim>\<open>apply\<close> it defines (\<open>None\<close>: it
  defines none) and its base class (single inheritance).
\<close>

datatype pyclass =
    MeasureBase
  | Subclass string "string option option" "apply_impl option" pyclass

fun class_name :: "pyclass \<Rightarrow> string" where
  "class_name MeasureBase = ''Measure''"
| "class_name (Subclass n d a p) = n"

text \<open>
  Looking up the class attribute \<^verbatim>\<open>short_name\<close> follows the base classes until one
  declares it; \<^verbatim>\<open>Measure\<close> declares the empty string (line 46).
\<close>

fun class_short_name :: "pyclass \<Rightarrow> string option" where
  "class_short_name MeasureBase = Some []"
| "class_short_name (Subclass n d a p) = (case d of Some v \<Rightarrow> v | None \<Rightarrow> class_short_name p)"

text \<open>The same look-up for \<^verbatim>\<open>apply\<close>; in \<^verbatim>\<open>Measure\<close> it is abstract (\<open>None\<close>).\<close>

fun class_apply :: "pyclass \<Rightarrow> apply_impl option" where
  "class_apply MeasureBase = None"
| "class_apply (Subclass n d a p) = (case a of Some f \<Rightarrow> Some f | None \<Rightarrow> class_apply p)"

text \<open>The built-in classes (lines 147-153, 163-169, 179-196, 228-234).\<close>

definition L2Measure :: pyclass where
  "L2Measure = Subclass ''L2Measure'' (Some (Some ''l2'')) (Some L2_apply_impl) MeasureBase"

definition MSEMeasure :: pyclass where
  "MSEMeasure = Subclass ''MSEMeasure'' (Some (Some ''mse'')) (Some MSE_apply_impl) MeasureBase"

definition PSNRMeasure :: pyclass where
  "PSNRMeasure = Subclass ''PSNRMeasure'' (Some (Some ''psnr'')) (Some PSNR_apply_impl) MeasureBase"

definition SSIMMeasure :: pyclass where
  "SSIMMeasure = Subclass ''SSIMMeasure'' (Some (Some ''ssim'')) (Some SSIM_apply_impl) MeasureBase"

subsection \<open>Instances and the registry\<close>

text \<open>
  \<open>inst_short_name\<close> is the instance attribute \<^verbatim>\<open>short_name\<close>: \<open>None\<close> while the instance
  has none of its own, \<open>Some s\<close> once \<^verbatim>\<open>__init__\<close> has assigned the string \<open>s\<close>.
  \<open>data_range\<close> and \<open>kwargs\<close> are the attributes that \<^verbatim>\<open>PSNRMeasure\<close> and \<^verbatim>\<open>SSIMMeasure\<close>
  set; the other classes leave them unset (\<open>None\<close>, \<open>[]\<close>).
\<close>

record measure_obj =
  ident :: nat
  cls :: pyclass
  inst_short_name :: "string option"
  data_range :: "real option"
  kwargs :: "(string \<times> pyval) list"

text \<open>
  Reading \<^verbatim>\<open>self.short_name\<close>: the instance attribute, else the class attribute (which may
  be the Python value \<^verbatim>\<open>None\<close>).
\<close>

definition short_name :: "measure_obj \<Rightarrow> string option" where
  "short_name self =
     (case inst_short_name self of Some s \<Rightarrow> Some s | None \<Rightarrow> class_short_name (cls self))"

record state =
  measure_dict :: "(string \<times> measure_obj) list"
  warnings :: "string list"
  next_ident :: nat

text \<open>\<^verbatim>\<open>name in measure_dict\<close>.\<close>

definition in_dict :: "string \<Rightarrow> (string \<times> measure_obj) list \<Rightarrow> bool" where
  "in_dict k d = (k \<in> set (map fst d))"

text \<open>
  Lines 78-79: \<^verbatim>\<open>while self.short_name in measure_dict: self.short_name = next(unique_name)\<close>.
  \<open>cur\<close> is the current \<^verbatim>\<open>self.short_name\<close> and \<open>i\<close> the counter of the generator. The
  loop ends because the dictionary is finite and the generated names grow: a name with
  more characters than all keys together is not a key.
\<close>

lemma str_nat_bound: "n < 10 ^ length (str_nat n)"
proof (induction n rule: str_nat.induct)
  case (1 n)
  show ?case
  proof (cases "n < 10")
    case True
    then show ?thesis by (simp add: str_nat.simps [of n])
  next
    case False
    with 1 have "n div 10 < 10 ^ length (str_nat (n div 10))" by simp
    then have "n < 10 * 10 ^ length (str_nat (n div 10))" by simp
    with False show ?thesis by (simp add: str_nat.simps [of n])
  qed
qed

lemma key_length_le: "in_dict k d \<Longrightarrow> length k \<le> sum_list (map (\<lambda>p. length (fst p)) d)"
proof (induction d)
  case Nil
  then show ?case by (simp add: in_dict_def)
next
  case (Cons p d)
  show ?case
  proof (cases "k = fst p")
    case True
    then show ?thesis by simp
  next
    case False
    with Cons.prems have "in_dict k d" by (auto simp: in_dict_def)
    then have "length k \<le> sum_list (map (\<lambda>p. length (fst p)) d)" by (rule Cons.IH)
    then show ?thesis by simp
  qed
qed

lemma gen_unique_name_bound:
  assumes "in_dict (gen_unique_name name_orig i) d"
  shows "i < 10 ^ sum_list (map (\<lambda>p. length (fst p)) d)"
proof -
  have "length (str_nat i) \<le> length (gen_unique_name name_orig i)"
    by (simp add: gen_unique_name_def)
  also have "\<dots> \<le> sum_list (map (\<lambda>p. length (fst p)) d)"
    using assms by (rule key_length_le)
  finally have "(10::nat) ^ length (str_nat i) \<le> 10 ^ sum_list (map (\<lambda>p. length (fst p)) d)"
    by (simp add: power_increasing)
  with str_nat_bound [of i] show ?thesis by (rule less_le_trans)
qed

function rename_loop :: "(string \<times> measure_obj) list \<Rightarrow> string \<Rightarrow> nat \<Rightarrow> string \<Rightarrow> string" where
  "rename_loop d name_orig i cur =
     (if in_dict cur d then rename_loop d name_orig (Suc i) (gen_unique_name name_orig i) else cur)"
  by pat_completeness auto
termination rename_loop
proof (relation "measure (\<lambda>(d, name_orig, i, cur).
    if in_dict cur d then Suc (10 ^ sum_list (map (\<lambda>p. length (fst p)) d) - i) else 0)")
  show "wf (measure (\<lambda>(d, name_orig, i, cur).
    if in_dict cur d then Suc (10 ^ sum_list (map (\<lambda>p. length (fst p)) d) - i) else 0))"
    by simp
next
  fix d :: "(string \<times> measure_obj) list" and name_orig :: string and i :: nat and cur :: string
  assume "in_dict cur d"
  then show "((d, name_orig, Suc i, gen_unique_name name_orig i), (d, name_orig, i, cur))
    \<in> measure (\<lambda>(d, name_orig, i, cur).
        if in_dict cur d then Suc (10 ^ sum_list (map (\<lambda>p. length (fst p)) d) - i) else 0)"
    using gen_unique_name_bound [of name_orig i d] by auto
qed

declare rename_loop.simps [simp del]

text \<open>The text of the warning of lines 80-81.\<close>

definition quoted :: "string \<Rightarrow> string" where
  "quoted s = [CHR 0x27] @ s @ [CHR 0x27]"

definition rename_warning :: "string \<Rightarrow> string \<Rightarrow> string" where
  "rename_warning old_short_name new_short_name =
     ''Measure `short_name` '' @ quoted old_short_name @ '' already exists, changed to '' @
     quoted new_short_name"

text \<open>
  \<^verbatim>\<open>Measure.__init__(self, short_name=None)\<close>, lines 71-82. The first step (lines 71-74)
  gives the instance after the assignment together with the string that
  \<^verbatim>\<open>self.short_name\<close> then reads. The result is the new state and the instance as it is
  when \<^verbatim>\<open>__init__\<close> returns, which is also the value stored in the dictionary.
\<close>

definition choose_short_name :: "measure_obj \<Rightarrow> string option \<Rightarrow> measure_obj \<times> string" where
  "choose_short_name self sn =
     (case sn of
        Some s \<Rightarrow> (self\<lparr>inst_short_name := Some s\<rparr>, s)
      | None \<Rightarrow>
          (case short_name self of
             None \<Rightarrow> (self\<lparr>inst_short_name := Some (class_name (cls self))\<rparr>, class_name (cls self))
           | Some s \<Rightarrow> (self, s)))"

definition Measure_init :: "state \<Rightarrow> measure_obj \<Rightarrow> string option \<Rightarrow> state \<times> measure_obj" where
  "Measure_init st self sn =
     (let (self1, old_short_name) = choose_short_name self sn;
          d = measure_dict st
      in if in_dict old_short_name d then
           let new_short_name = rename_loop d old_short_name 1 old_short_name;
               self2 = self1\<lparr>inst_short_name := Some new_short_name\<rparr>
           in (st\<lparr>warnings := warnings st @ [rename_warning old_short_name new_short_name],
                  measure_dict := AList.update new_short_name self2 d\<rparr>, self2)
         else (st\<lparr>measure_dict := AList.update old_short_name self1 d\<rparr>, self1))"

text \<open>
  Creating the object before \<^verbatim>\<open>__init__\<close> runs: a new identity and no instance
  attributes.
\<close>

definition allocate :: "state \<Rightarrow> pyclass \<Rightarrow> state \<times> measure_obj" where
  "allocate st c =
     (st\<lparr>next_ident := Suc (next_ident st)\<rparr>,
      \<lparr>ident = next_ident st, cls = c, inst_short_name = None, data_range = None, kwargs = []\<rparr>)"

text \<open>
  Instantiating a class that inherits \<^verbatim>\<open>__init__\<close> from \<^verbatim>\<open>Measure\<close>:
  \<^verbatim>\<open>C(short_name=sn)\<close>. A class whose \<^verbatim>\<open>apply\<close> is still abstract cannot be instantiated
  (\<^verbatim>\<open>ABC\<close> raises \<^verbatim>\<open>TypeError\<close>).
\<close>

definition new_Measure :: "state \<Rightarrow> pyclass \<Rightarrow> string option \<Rightarrow> error + state \<times> measure_obj" where
  "new_Measure st c sn =
     (case class_apply c of
        None \<Rightarrow> Inl TypeError
      | Some f \<Rightarrow> (let (st', self) = allocate st c in Inr (Measure_init st' self sn)))"

text \<open>\<^verbatim>\<open>Measure.get_by_short_name\<close>, line 123: \<^verbatim>\<open>measure_dict.get(short_name)\<close>.\<close>

definition get_by_short_name :: "state \<Rightarrow> string \<Rightarrow> measure_obj option" where
  "get_by_short_name st name = map_of (measure_dict st) name"

subsection \<open>Floating-point and array operations\<close>

text \<open>
  The operations of Python and \<^verbatim>\<open>numpy\<close> that the measures use, on exact reals with the
  special values. \<open>pf_eq\<close> is \<^verbatim>\<open>==\<close> and \<open>pf_le\<close> is \<^verbatim>\<open><=\<close>: every comparison with
  not-a-number is false.
\<close>

fun pf_eq :: "pyfloat \<Rightarrow> pyfloat \<Rightarrow> bool" where
  "pf_eq (Finite x) (Finite y) = (x = y)"
| "pf_eq PInf PInf = True"
| "pf_eq NInf NInf = True"
| "pf_eq _ _ = False"

fun pf_le :: "pyfloat \<Rightarrow> pyfloat \<Rightarrow> bool" where
  "pf_le NaN _ = False"
| "pf_le _ NaN = False"
| "pf_le NInf _ = True"
| "pf_le _ PInf = True"
| "pf_le (Finite x) (Finite y) = (x \<le> y)"
| "pf_le _ _ = False"

fun pf_uminus :: "pyfloat \<Rightarrow> pyfloat" where
  "pf_uminus (Finite x) = Finite (- x)"
| "pf_uminus PInf = NInf"
| "pf_uminus NInf = PInf"
| "pf_uminus NaN = NaN"

fun pf_plus :: "pyfloat \<Rightarrow> pyfloat \<Rightarrow> pyfloat" where
  "pf_plus NaN _ = NaN"
| "pf_plus _ NaN = NaN"
| "pf_plus (Finite x) (Finite y) = Finite (x + y)"
| "pf_plus PInf NInf = NaN"
| "pf_plus NInf PInf = NaN"
| "pf_plus PInf _ = PInf"
| "pf_plus _ PInf = PInf"
| "pf_plus NInf _ = NInf"
| "pf_plus _ NInf = NInf"

definition pf_minus :: "pyfloat \<Rightarrow> pyfloat \<Rightarrow> pyfloat" where
  "pf_minus a b = pf_plus a (pf_uminus b)"

text \<open>The sign of a value that is not not-a-number: \<open>-1\<close>, \<open>0\<close> or \<open>1\<close>.\<close>

fun pf_sgn :: "pyfloat \<Rightarrow> real" where
  "pf_sgn (Finite x) = sgn x"
| "pf_sgn PInf = 1"
| "pf_sgn NInf = - 1"
| "pf_sgn NaN = 0"

fun pf_times :: "pyfloat \<Rightarrow> pyfloat \<Rightarrow> pyfloat" where
  "pf_times NaN _ = NaN"
| "pf_times _ NaN = NaN"
| "pf_times (Finite x) (Finite y) = Finite (x * y)"
| "pf_times a b =
     (if pf_sgn a * pf_sgn b = 0 then NaN else if 0 < pf_sgn a * pf_sgn b then PInf else NInf)"

text \<open>\<^verbatim>\<open>np.log10\<close>: minus infinity at zero, not-a-number below (with a warning, no exception).\<close>

fun np_log10 :: "pyfloat \<Rightarrow> pyfloat" where
  "np_log10 (Finite x) = (if 0 < x then Finite (log 10 x) else if x = 0 then NInf else NaN)"
| "np_log10 PInf = PInf"
| "np_log10 NInf = NaN"
| "np_log10 NaN = NaN"

fun np_sqrt :: "pyfloat \<Rightarrow> pyfloat" where
  "np_sqrt (Finite x) = (if 0 \<le> x then Finite (sqrt x) else NaN)"
| "np_sqrt PInf = PInf"
| "np_sqrt NInf = NaN"
| "np_sqrt NaN = NaN"

text \<open>The integer element types: their width in bits and whether they are signed.\<close>

fun dtype_bits :: "int_dtype \<Rightarrow> nat" where
  "dtype_bits Int8 = 8"
| "dtype_bits Int16 = 16"
| "dtype_bits Int32 = 32"
| "dtype_bits Int64 = 64"
| "dtype_bits UInt8 = 8"
| "dtype_bits UInt16 = 16"
| "dtype_bits UInt32 = 32"
| "dtype_bits UInt64 = 64"

fun dtype_signed :: "int_dtype \<Rightarrow> bool" where
  "dtype_signed Int8 = True"
| "dtype_signed Int16 = True"
| "dtype_signed Int32 = True"
| "dtype_signed Int64 = True"
| "dtype_signed UInt8 = False"
| "dtype_signed UInt16 = False"
| "dtype_signed UInt32 = False"
| "dtype_signed UInt64 = False"

text \<open>
  The value, in the element type \<open>t\<close> of \<open>b\<close> bits, of an operation whose exact result is
  \<open>x\<close>: the integer congruent to \<open>x\<close> modulo \<open>2\<^sup>b\<close> that lies between \<open>-2\<^sup>b\<^sup>-\<^sup>1\<close> and
  \<open>2\<^sup>b\<^sup>-\<^sup>1 - 1\<close> for a signed type and between \<open>0\<close> and \<open>2\<^sup>b - 1\<close> for an unsigned type.
\<close>

definition wrap :: "int_dtype \<Rightarrow> int \<Rightarrow> int" where
  "wrap t x =
     (if dtype_signed t
      then (x + 2 ^ (dtype_bits t - 1)) mod 2 ^ dtype_bits t - 2 ^ (dtype_bits t - 1)
      else x mod 2 ^ dtype_bits t)"

text \<open>
  The element type of the result of an operation on two integer arrays: the wider type
  when both are signed or both unsigned; otherwise the signed type when it is wider than
  the unsigned one, else the signed type of twice the width of the unsigned one, and
  \<^verbatim>\<open>float64\<close> (\<open>None\<close>) when there is none of that width.
\<close>

definition signed_of_bits :: "nat \<Rightarrow> int_dtype" where
  "signed_of_bits b = (if b \<le> 8 then Int8 else if b \<le> 16 then Int16 else if b \<le> 32 then Int32 else Int64)"

definition result_type :: "int_dtype \<Rightarrow> int_dtype \<Rightarrow> int_dtype option" where
  "result_type t1 t2 =
     (if dtype_signed t1 = dtype_signed t2
      then Some (if dtype_bits t2 \<le> dtype_bits t1 then t1 else t2)
      else (let sb = dtype_bits (if dtype_signed t1 then t1 else t2);
                ub = dtype_bits (if dtype_signed t1 then t2 else t1)
            in if ub < sb then Some (signed_of_bits sb)
               else if ub < 64 then Some (signed_of_bits (2 * ub))
               else None))"

text \<open>\<^verbatim>\<open>np.asarray\<close> of an array-like value, the number of elements, and \<^verbatim>\<open>astype(float)\<close>.\<close>

fun np_asarray :: "array_like \<Rightarrow> ndarray" where
  "np_asarray (NdArray a) = a"
| "np_asarray (OdlElement xs) = FloatArray xs"

fun np_size :: "ndarray \<Rightarrow> nat" where
  "np_size (IntArray t xs) = length xs"
| "np_size (FloatArray xs) = length xs"

fun to_float :: "ndarray \<Rightarrow> real list" where
  "to_float (IntArray t xs) = map real_of_int xs"
| "to_float (FloatArray xs) = xs"

text \<open>
  An operation on two one-dimensional arrays, element by element when the lengths agree;
  an array of one element is broadcast against the other; any other pair of lengths
  raises \<^verbatim>\<open>ValueError\<close>.
\<close>

definition broadcast2 :: "('a \<Rightarrow> 'a \<Rightarrow> 'a) \<Rightarrow> 'a list \<Rightarrow> 'a list \<Rightarrow> error + 'a list" where
  "broadcast2 f a b =
     (if length a = length b then Inr (map2 f a b)
      else (case a of
              [x] \<Rightarrow> Inr (map (\<lambda>y. f x y) b)
            | _ \<Rightarrow> (case b of
                      [y] \<Rightarrow> Inr (map (\<lambda>x. f x y) a)
                    | _ \<Rightarrow> Inl ValueError)))"

text \<open>
  \<^verbatim>\<open>a - b\<close> for arrays: between two integer arrays the result has the element type
  \<open>result_type\<close> gives and wraps around in it; otherwise, and when that type is
  \<^verbatim>\<open>float64\<close>, both arrays are taken as \<^verbatim>\<open>float64\<close>.
\<close>

definition float_subtract :: "ndarray \<Rightarrow> ndarray \<Rightarrow> error + ndarray" where
  "float_subtract a b =
     (case broadcast2 (\<lambda>x y. x - y) (to_float a) (to_float b) of
        Inl e \<Rightarrow> Inl e
      | Inr c \<Rightarrow> Inr (FloatArray c))"

fun np_subtract :: "ndarray \<Rightarrow> ndarray \<Rightarrow> error + ndarray" where
  "np_subtract (IntArray t1 a) (IntArray t2 b) =
     (case result_type t1 t2 of
        None \<Rightarrow> float_subtract (IntArray t1 a) (IntArray t2 b)
      | Some t \<Rightarrow>
          (case broadcast2 (\<lambda>x y. wrap t (x - y)) a b of
             Inl e \<Rightarrow> Inl e
           | Inr c \<Rightarrow> Inr (IntArray t c)))"
| "np_subtract a b = float_subtract a b"

text \<open>
  \<^verbatim>\<open>a**2\<close>: in the element type of the array, so the square of an integer wraps around.
\<close>

fun np_square :: "ndarray \<Rightarrow> ndarray" where
  "np_square (IntArray t a) = IntArray t (map (\<lambda>x. wrap t (x * x)) a)"
| "np_square (FloatArray a) = FloatArray (map (\<lambda>x. x * x) a)"

text \<open>
  \<^verbatim>\<open>np.mean\<close>: the elements are added as \<^verbatim>\<open>float64\<close>, also those of an integer array;
  not-a-number for an empty array (with a warning, no exception).
\<close>

definition np_mean :: "ndarray \<Rightarrow> pyfloat" where
  "np_mean a =
     (if to_float a = [] then NaN
      else Finite (sum_list (to_float a) / real (length (to_float a))))"

text \<open>
  \<^verbatim>\<open>np.linalg.norm\<close> of a flat array: an integer array is converted to \<^verbatim>\<open>float64\<close> first;
  the result is the square root of the sum of the squares.
\<close>

definition np_linalg_norm :: "ndarray \<Rightarrow> pyfloat" where
  "np_linalg_norm a = Finite (sqrt (sum_list (map (\<lambda>x. x * x) (to_float a))))"

text \<open>\<^verbatim>\<open>np.max\<close> and \<^verbatim>\<open>np.min\<close> raise \<^verbatim>\<open>ValueError\<close> on an empty array.\<close>

definition np_max :: "'a::linorder list \<Rightarrow> error + 'a" where
  "np_max a = (case a of [] \<Rightarrow> Inl ValueError | x # xs \<Rightarrow> Inr (fold max xs x))"

definition np_min :: "'a::linorder list \<Rightarrow> error + 'a" where
  "np_min a = (case a of [] \<Rightarrow> Inl ValueError | x # xs \<Rightarrow> Inr (fold min xs x))"

text \<open>
  \<^verbatim>\<open>np.max(gt) - np.min(gt)\<close>, lines 221 and 262: for an integer array the difference is
  taken in the element type and wraps around. The result is given as the real number it
  stands for.
\<close>

fun gt_range :: "ndarray \<Rightarrow> error + real" where
  "gt_range (IntArray t a) =
     (case np_max a of
        Inl e \<Rightarrow> Inl e
      | Inr hi \<Rightarrow>
          (case np_min a of Inl e \<Rightarrow> Inl e | Inr lo \<Rightarrow> Inr (real_of_int (wrap t (hi - lo)))))"
| "gt_range (FloatArray a) =
     (case np_max a of
        Inl e \<Rightarrow> Inl e
      | Inr hi \<Rightarrow> (case np_min a of Inl e \<Rightarrow> Inl e | Inr lo \<Rightarrow> Inr (hi - lo)))"

subsection \<open>The measures\<close>

text \<open>\<^verbatim>\<open>L2Measure.apply\<close>, lines 155-157.\<close>

definition L2Measure_apply :: "array_like \<Rightarrow> array_like \<Rightarrow> error + pyfloat" where
  "L2Measure_apply reconstruction ground_truth =
     (case np_subtract (np_asarray reconstruction) (np_asarray ground_truth) of
        Inl e \<Rightarrow> Inl e
      | Inr diff \<Rightarrow> Inr (np_linalg_norm diff))"

text \<open>\<^verbatim>\<open>MSEMeasure.apply\<close>, lines 171-173.\<close>

definition MSEMeasure_apply :: "array_like \<Rightarrow> array_like \<Rightarrow> error + pyfloat" where
  "MSEMeasure_apply reconstruction ground_truth =
     (case np_subtract (np_asarray reconstruction) (np_asarray ground_truth) of
        Inl e \<Rightarrow> Inl e
      | Inr diff \<Rightarrow> Inr (np_mean (np_square diff)))"

text \<open>
  \<^verbatim>\<open>PSNRMeasure.apply\<close>, lines 216-222. \<^verbatim>\<open>self.data_range or (...)\<close> takes the right-hand side
  when \<^verbatim>\<open>self.data_range\<close> is \<^verbatim>\<open>None\<close> and also when it is zero, and only then evaluates it.
\<close>

definition psnr_data_range :: "measure_obj \<Rightarrow> ndarray \<Rightarrow> error + real" where
  "psnr_data_range self gt =
     (case data_range self of
        None \<Rightarrow> gt_range gt
      | Some d \<Rightarrow> if d \<noteq> 0 then Inr d else gt_range gt)"

definition psnr_value :: "real \<Rightarrow> pyfloat \<Rightarrow> pyfloat" where
  "psnr_value dr mse =
     pf_minus (pf_times (Finite 20) (np_log10 (Finite dr))) (pf_times (Finite 10) (np_log10 mse))"

definition PSNRMeasure_apply :: "measure_obj \<Rightarrow> array_like \<Rightarrow> array_like \<Rightarrow> error + pyfloat" where
  "PSNRMeasure_apply self reconstruction ground_truth =
     (let gt = np_asarray ground_truth
      in case np_subtract (np_asarray reconstruction) gt of
           Inl e \<Rightarrow> Inl e
         | Inr diff \<Rightarrow>
             let mse = np_mean (np_square diff)
             in if pf_eq mse (Finite 0) then Inr PInf
                else (case psnr_data_range self gt of
                        Inl e \<Rightarrow> Inl e
                      | Inr dr \<Rightarrow> Inr (psnr_value dr mse)))"

text \<open>
  \<^verbatim>\<open>SSIMMeasure.apply\<close>, lines 259-264. \<^verbatim>\<open>structural_similarity\<close> belongs to another
  library; it is the parameter \<open>ss\<close>, called with the reconstruction as it was given, the
  array of the ground truth, the data range and the remaining keyword arguments.
\<close>

type_synonym ssim_fun =
  "array_like \<Rightarrow> ndarray \<Rightarrow> real \<Rightarrow> (string \<times> pyval) list \<Rightarrow> error + pyfloat"

definition ssim_data_range :: "measure_obj \<Rightarrow> ndarray \<Rightarrow> error + real" where
  "ssim_data_range self gt =
     (case data_range self of
        Some d \<Rightarrow> Inr d
      | None \<Rightarrow> gt_range gt)"

definition SSIMMeasure_apply ::
    "ssim_fun \<Rightarrow> measure_obj \<Rightarrow> array_like \<Rightarrow> array_like \<Rightarrow> error + pyfloat" where
  "SSIMMeasure_apply ss self reconstruction ground_truth =
     (let gt = np_asarray ground_truth
      in case ssim_data_range self gt of
           Inl e \<Rightarrow> Inl e
         | Inr dr \<Rightarrow> ss reconstruction gt dr (kwargs self))"

text \<open>
  \<^verbatim>\<open>m.apply(reconstruction, ground_truth)\<close>: the \<^verbatim>\<open>apply\<close> of the instance's class. No
  instance of a class without \<^verbatim>\<open>apply\<close> exists (see \<open>new_Measure\<close>).
\<close>

definition Measure_apply ::
    "ssim_fun \<Rightarrow> measure_obj \<Rightarrow> array_like \<Rightarrow> array_like \<Rightarrow> error + pyfloat" where
  "Measure_apply ss self reconstruction ground_truth =
     (case class_apply (cls self) of
        None \<Rightarrow> Inl TypeError
      | Some L2_apply_impl \<Rightarrow> L2Measure_apply reconstruction ground_truth
      | Some MSE_apply_impl \<Rightarrow> MSEMeasure_apply reconstruction ground_truth
      | Some PSNR_apply_impl \<Rightarrow> PSNRMeasure_apply self reconstruction ground_truth
      | Some SSIM_apply_impl \<Rightarrow> SSIMMeasure_apply ss self reconstruction ground_truth
      | Some (User_apply_impl f) \<Rightarrow> f reconstruction ground_truth)"

text \<open>
  \<^verbatim>\<open>Measure._OperatorForFixedGroundTruth\<close>, lines 125-132. The constructor reads
  \<^verbatim>\<open>ground_truth.space\<close> (line 127) to make the domain of the operator, which raises
  \<^verbatim>\<open>AttributeError\<close> for a ground truth that is an array and not an element of a space;
  the range is the field of the space, the real numbers. The operator keeps the measure
  and the ground truth, and its method \<^verbatim>\<open>_call\<close> applies the measure.
  \<^verbatim>\<open>as_operator_for_fixed_ground_truth\<close>, line 144, calls the constructor. The domain
  \<^verbatim>\<open>rn(n)\<close> is given by \<open>n\<close>.
\<close>

record operator_for_fixed_ground_truth =
  op_domain :: nat
  op_measure :: measure_obj
  op_ground_truth :: array_like

definition as_operator_for_fixed_ground_truth ::
    "measure_obj \<Rightarrow> array_like \<Rightarrow> error + operator_for_fixed_ground_truth" where
  "as_operator_for_fixed_ground_truth self ground_truth =
     (case ground_truth of
        NdArray a \<Rightarrow> Inl AttributeError
      | OdlElement xs \<Rightarrow>
          Inr \<lparr>op_domain = length xs, op_measure = self, op_ground_truth = ground_truth\<rparr>)"

definition operator__call ::
    "ssim_fun \<Rightarrow> operator_for_fixed_ground_truth \<Rightarrow> array_like \<Rightarrow> error + pyfloat" where
  "operator__call ss self x = Measure_apply ss (op_measure self) x (op_ground_truth self)"

text \<open>
  Modelled from the spec: \<^verbatim>\<open>__call__\<close> of the base class \<^verbatim>\<open>Operator\<close> of the library
  \<^verbatim>\<open>odl\<close>, which is what applying the operator to an argument runs. The specification
  says that the single-argument call of the adapter computes \<^verbatim>\<open>apply(x, ground_truth)\<close>;
  the library gets there as follows. An argument that is an element of the domain is
  passed to \<^verbatim>\<open>_call\<close> as it is. Any other argument is first cast to an element of the
  domain, which succeeds for an array of the size of the domain and gives the element
  with the same entries as \<^verbatim>\<open>float64\<close>; when the cast fails, \<^verbatim>\<open>OpDomainError\<close> is raised.
  The result of \<^verbatim>\<open>_call\<close>, a floating-point number, lies in the range and is returned; an
  exception raised by \<^verbatim>\<open>_call\<close> passes through.
\<close>

definition operator_call ::
    "ssim_fun \<Rightarrow> operator_for_fixed_ground_truth \<Rightarrow> array_like \<Rightarrow> error + pyfloat" where
  "operator_call ss self x =
     (case x of
        OdlElement xs \<Rightarrow>
          if length xs = op_domain self then operator__call ss self x else Inl OpDomainError
      | NdArray a \<Rightarrow>
          if np_size a = op_domain self then operator__call ss self (OdlElement (to_float a))
          else Inl OpDomainError)"

subsection \<open>The constructors of the parametrised measures and the module's instances\<close>

text \<open>
  \<^verbatim>\<open>'{}_data_range{}'.format(self.__class__.short_name, self.data_range)\<close>: the text of a
  number is given by the parameter \<open>fmt\<close> (Python's formatting of a number is not part of
  the module); the text of \<^verbatim>\<open>None\<close> is \<^verbatim>\<open>None\<close>.
\<close>

definition data_range_name :: "(real \<Rightarrow> string) \<Rightarrow> pyclass \<Rightarrow> real \<Rightarrow> string" where
  "data_range_name fmt c d =
     (case class_short_name c of Some s \<Rightarrow> s | None \<Rightarrow> ''None'') @ ''_data_range'' @ fmt d"

text \<open>\<^verbatim>\<open>PSNRMeasure(data_range, short_name)\<close>, lines 210-214.\<close>

definition new_PSNRMeasure ::
    "(real \<Rightarrow> string) \<Rightarrow> state \<Rightarrow> real option \<Rightarrow> string option \<Rightarrow> state \<times> measure_obj" where
  "new_PSNRMeasure fmt st dr sn =
     (let (st', self) = allocate st PSNRMeasure;
          self1 = self\<lparr>data_range := dr\<rparr>
      in Measure_init st' self1
           (case dr of
              Some d \<Rightarrow>
                (case sn of None \<Rightarrow> Some (data_range_name fmt PSNRMeasure d) | Some s \<Rightarrow> Some s)
            | None \<Rightarrow> sn))"

text \<open>
  \<^verbatim>\<open>SSIMMeasure(short_name, **kwargs)\<close>, lines 252-257. The keyword arguments arrive
  split: \<open>dr\<close> is the entry \<^verbatim>\<open>data_range\<close> (\<open>None\<close> when it is absent or \<^verbatim>\<open>None\<close>) and \<open>kw\<close>
  the others, which \<^verbatim>\<open>pop\<close> leaves in \<^verbatim>\<open>self.kwargs\<close>.
\<close>

definition new_SSIMMeasure ::
    "(real \<Rightarrow> string) \<Rightarrow> state \<Rightarrow> string option \<Rightarrow> real option \<Rightarrow> (string \<times> pyval) list
      \<Rightarrow> state \<times> measure_obj" where
  "new_SSIMMeasure fmt st sn dr kw =
     (let (st', self) = allocate st SSIMMeasure;
          self1 = self\<lparr>kwargs := AList.delete ''data_range'' kw, data_range := dr\<rparr>
      in Measure_init st' self1
           (case dr of
              Some d \<Rightarrow>
                (case sn of None \<Rightarrow> Some (data_range_name fmt SSIMMeasure d) | Some s \<Rightarrow> Some s)
            | None \<Rightarrow> sn))"

text \<open>
  The state once the module is loaded: the empty registry, then \<^verbatim>\<open>L2 = L2Measure()\<close>,
  \<^verbatim>\<open>MSE = MSEMeasure()\<close>, \<^verbatim>\<open>PSNR = PSNRMeasure()\<close> and \<^verbatim>\<open>SSIM = SSIMMeasure()\<close> (lines 160,
  176, 225 and 267). \<open>init_class st C\<close> is \<^verbatim>\<open>C()\<close> for a class that can be instantiated;
  none of the four has a data range, so no number is formatted.
\<close>

definition empty_state :: state where
  "empty_state = \<lparr>measure_dict = [], warnings = [], next_ident = 0\<rparr>"

definition init_class :: "state \<Rightarrow> pyclass \<Rightarrow> state \<times> measure_obj" where
  "init_class st c = (let (st', self) = allocate st c in Measure_init st' self None)"

definition module_load :: "state \<times> measure_obj \<times> measure_obj \<times> measure_obj \<times> measure_obj" where
  "module_load =
     (let (s1, l2) = init_class empty_state L2Measure;
          (s2, mse) = init_class s1 MSEMeasure;
          (s3, psnr) = init_class s2 PSNRMeasure;
          (s4, ssim) = init_class s3 SSIMMeasure
      in (s4, l2, mse, psnr, ssim))"

definition module_state :: state where
  "module_state = fst module_load"

definition L2 :: measure_obj where
  "L2 = fst (snd module_load)"

definition MSE :: measure_obj where
  "MSE = fst (snd (snd module_load))"

definition PSNR :: measure_obj where
  "PSNR = fst (snd (snd (snd module_load)))"

definition SSIM :: measure_obj where
  "SSIM = snd (snd (snd (snd module_load)))"

text \<open>
  A user-defined measure as in the third scenario of the specification: a subclass of
  \<^verbatim>\<open>Measure\<close> with a trivial \<^verbatim>\<open>apply\<close> that declares no \<^verbatim>\<open>short_name\<close>.
\<close>

definition trivial_class :: pyclass where
  "trivial_class =
     Subclass ''Trivial'' None (Some (User_apply_impl (\<lambda>r g. Inr (Finite 0)))) MeasureBase"

section \<open>Properties of the registry\<close>

subsection \<open>The renaming loop and \<^verbatim>\<open>__init__\<close>\<close>

text \<open>
  The loop, entered with a name that is taken, returns the first name of the generator
  from the counter \<open>i\<close> on that is not a key.
\<close>

lemma rename_loop_spec:
  "in_dict cur d \<Longrightarrow> \<exists>k\<ge>i. rename_loop d n i cur = gen_unique_name n k \<and>
     \<not> in_dict (gen_unique_name n k) d \<and> (\<forall>j. i \<le> j \<and> j < k \<longrightarrow> in_dict (gen_unique_name n j) d)"
proof (induction d n i cur rule: rename_loop.induct)
  case (1 d n i cur)
  show ?case
  proof (cases "in_dict (gen_unique_name n i) d")
    case False
    with 1 have "rename_loop d n i cur = gen_unique_name n i"
      by (simp add: rename_loop.simps [of d n i cur] rename_loop.simps [of d n "Suc i"])
    with False show ?thesis by (intro exI [of _ i]) auto
  next
    case True
    from "1.IH" [OF "1.prems" True] obtain k where k: "Suc i \<le> k"
      "rename_loop d n (Suc i) (gen_unique_name n i) = gen_unique_name n k"
      "\<not> in_dict (gen_unique_name n k) d"
      "\<forall>j. Suc i \<le> j \<and> j < k \<longrightarrow> in_dict (gen_unique_name n j) d" by blast
    have "\<forall>j. i \<le> j \<and> j < k \<longrightarrow> in_dict (gen_unique_name n j) d"
    proof (intro allI impI)
      fix j assume "i \<le> j \<and> j < k"
      then show "in_dict (gen_unique_name n j) d"
        using True k(4) by (cases "j = i") auto
    qed
    with k "1.prems" show ?thesis
      by (intro exI [of _ k]) (simp add: rename_loop.simps [of d n i cur])
  qed
qed

lemma update_fresh: "\<not> in_dict k d \<Longrightarrow> AList.update k v d = d @ [(k, v)]"
  by (induction d) (auto simp: in_dict_def)

lemma in_dict_append: "in_dict k (d @ e) = (in_dict k d \<or> in_dict k e)"
  by (auto simp: in_dict_def)

lemma in_dict_single: "in_dict k [(k', v)] = (k = k')"
  by (simp add: in_dict_def)

lemma map_of_not_in_dict: "\<not> in_dict k d \<Longrightarrow> map_of d k = None"
  by (simp add: in_dict_def map_of_eq_None_iff)

lemma choose_short_name_reads:
  "short_name (fst (choose_short_name self sn)) = Some (snd (choose_short_name self sn))"
  by (auto simp: choose_short_name_def short_name_def split: option.splits)

lemma Measure_init_fresh:
  assumes "choose_short_name self sn = (self1, n)" and "\<not> in_dict n (measure_dict st)"
  shows "Measure_init st self sn = (st\<lparr>measure_dict := measure_dict st @ [(n, self1)]\<rparr>, self1)"
  using assms by (simp add: Measure_init_def update_fresh)

lemma Measure_init_taken:
  assumes "choose_short_name self sn = (self1, n)" and "in_dict n (measure_dict st)"
  shows "\<exists>k\<ge>1. \<not> in_dict (gen_unique_name n k) (measure_dict st) \<and>
            (\<forall>j. 1 \<le> j \<and> j < k \<longrightarrow> in_dict (gen_unique_name n j) (measure_dict st)) \<and>
            Measure_init st self sn =
              (st\<lparr>warnings := warnings st @ [rename_warning n (gen_unique_name n k)],
                  measure_dict := measure_dict st @
                    [(gen_unique_name n k, self1\<lparr>inst_short_name := Some (gen_unique_name n k)\<rparr>)]\<rparr>,
               self1\<lparr>inst_short_name := Some (gen_unique_name n k)\<rparr>)"
proof -
  from rename_loop_spec [OF assms(2), of 1 n] obtain k where k: "1 \<le> k"
    "rename_loop (measure_dict st) n 1 n = gen_unique_name n k"
    "\<not> in_dict (gen_unique_name n k) (measure_dict st)"
    "\<forall>j. 1 \<le> j \<and> j < k \<longrightarrow> in_dict (gen_unique_name n j) (measure_dict st)" by blast
  show ?thesis
    using assms k by (intro exI [of _ k]) (simp add: Measure_init_def update_fresh Let_def)
qed

lemma Measure_init_appends:
  "\<exists>n. short_name (snd (Measure_init st self sn)) = Some n \<and> \<not> in_dict n (measure_dict st) \<and>
       measure_dict (fst (Measure_init st self sn)) =
         measure_dict st @ [(n, snd (Measure_init st self sn))]"
proof -
  obtain self1 n where c: "choose_short_name self sn = (self1, n)" by (cases "choose_short_name self sn")
  have r: "short_name self1 = Some n" using choose_short_name_reads [of self sn] c by simp
  show ?thesis
  proof (cases "in_dict n (measure_dict st)")
    case False
    with c r show ?thesis by (intro exI [of _ n]) (simp add: Measure_init_fresh)
  next
    case True
    from Measure_init_taken [OF c True] obtain k where
      "\<not> in_dict (gen_unique_name n k) (measure_dict st)"
      "Measure_init st self sn =
              (st\<lparr>warnings := warnings st @ [rename_warning n (gen_unique_name n k)],
                  measure_dict := measure_dict st @
                    [(gen_unique_name n k, self1\<lparr>inst_short_name := Some (gen_unique_name n k)\<rparr>)]\<rparr>,
               self1\<lparr>inst_short_name := Some (gen_unique_name n k)\<rparr>)" by blast
    then show ?thesis by (intro exI [of _ "gen_unique_name n k"]) (simp add: short_name_def)
  qed
qed

lemma gen_unique_name_neq: "gen_unique_name n k \<noteq> n"
  by (simp add: gen_unique_name_def)

lemma gen_unique_name_1: "gen_unique_name n (Suc 0) = n @ ''_1''"
  by (simp add: gen_unique_name_def str_nat.simps digit_char_def)

lemma module_load_eval:
  "module_load =
     (\<lparr>measure_dict =
         [(''l2'', \<lparr>ident = 0, cls = L2Measure, inst_short_name = None, data_range = None, kwargs = []\<rparr>),
          (''mse'', \<lparr>ident = 1, cls = MSEMeasure, inst_short_name = None, data_range = None, kwargs = []\<rparr>),
          (''psnr'', \<lparr>ident = 2, cls = PSNRMeasure, inst_short_name = None, data_range = None, kwargs = []\<rparr>),
          (''ssim'', \<lparr>ident = 3, cls = SSIMMeasure, inst_short_name = None, data_range = None, kwargs = []\<rparr>)],
       warnings = [], next_ident = 4\<rparr>,
      \<lparr>ident = 0, cls = L2Measure, inst_short_name = None, data_range = None, kwargs = []\<rparr>,
      \<lparr>ident = 1, cls = MSEMeasure, inst_short_name = None, data_range = None, kwargs = []\<rparr>,
      \<lparr>ident = 2, cls = PSNRMeasure, inst_short_name = None, data_range = None, kwargs = []\<rparr>,
      \<lparr>ident = 3, cls = SSIMMeasure, inst_short_name = None, data_range = None, kwargs = []\<rparr>)"
  by (simp add: module_load_def init_class_def allocate_def Measure_init_def
      choose_short_name_def short_name_def L2Measure_def MSEMeasure_def PSNRMeasure_def
      SSIMMeasure_def empty_state_def in_dict_def)

lemma module_state_eval:
  "module_state =
     \<lparr>measure_dict = [(''l2'', L2), (''mse'', MSE), (''psnr'', PSNR), (''ssim'', SSIM)],
      warnings = [], next_ident = 4\<rparr>"
  by (simp add: module_state_def L2_def MSE_def PSNR_def SSIM_def module_load_eval)

lemma module_instances_eval:
  "L2 = \<lparr>ident = 0, cls = L2Measure, inst_short_name = None, data_range = None, kwargs = []\<rparr>"
  "MSE = \<lparr>ident = 1, cls = MSEMeasure, inst_short_name = None, data_range = None, kwargs = []\<rparr>"
  "PSNR = \<lparr>ident = 2, cls = PSNRMeasure, inst_short_name = None, data_range = None, kwargs = []\<rparr>"
  "SSIM = \<lparr>ident = 3, cls = SSIMMeasure, inst_short_name = None, data_range = None, kwargs = []\<rparr>"
  by (simp_all add: L2_def MSE_def PSNR_def SSIM_def module_load_eval)

text \<open>
  The constructions without arguments that build \<open>module_state\<close> are the constructors of
  the classes.
\<close>

lemma new_Measure_init_class:
  "class_apply c \<noteq> None \<Longrightarrow> new_Measure st c None = Inr (init_class st c)"
  by (auto simp: new_Measure_def init_class_def allocate_def split: option.splits)

lemma new_PSNRMeasure_init_class: "new_PSNRMeasure fmt st None None = init_class st PSNRMeasure"
  by (simp add: new_PSNRMeasure_def init_class_def allocate_def)

lemma new_SSIMMeasure_init_class: "new_SSIMMeasure fmt st None None [] = init_class st SSIMMeasure"
  by (simp add: new_SSIMMeasure_def init_class_def allocate_def)

subsection \<open>Two constructions with the same explicit short name\<close>

lemma gen_unique_name_2: "gen_unique_name n 2 = n @ ''_2''"
  by (simp add: gen_unique_name_def str_nat.simps digit_char_def)

text \<open>The decimal digits that \<open>str_nat\<close> gives.\<close>

lemma str_nat_examples:
  "str_nat 1 = ''1''" "str_nat 9 = ''9''" "str_nat 10 = ''10''" "str_nat 27 = ''27''"
  "str_nat 305 = ''305''"
  by (simp_all add: str_nat.simps digit_char_def)

text \<open>
  Claim C1. Let the registry of \<open>st\<close> not contain \<open>name\<close>, and let \<^verbatim>\<open>__init__\<close> run twice
  with the explicit short name \<open>name\<close>, for the instances \<open>self1\<close> and then \<open>self2\<close> (every
  constructor of the module passes an explicit short name on to \<^verbatim>\<open>Measure.__init__\<close>).
  Then the first instance keeps \<open>name\<close> and no warning is issued for it; the second
  instance is named \<open>name_k\<close>, with \<open>k\<close> in decimal digits, for the first \<open>k \<ge> 1\<close> whose
  name is not a key of the registry it meets: \<open>name_1\<close> when the initial registry does not
  contain \<open>name_1\<close>, and \<open>name_2\<close> when it contains \<open>name_1\<close> and not \<open>name_2\<close>. Exactly one
  warning is added, with the text
  \<^verbatim>\<open>Measure `short_name` 'name' already exists, changed to 'name_k'\<close>,
  and no error is raised (\<open>Measure_init\<close> has no error result); afterwards
  \<open>get_by_short_name\<close> returns the first instance for \<open>name\<close> and the second for the new
  name, and the two instances differ.
\<close>

theorem same_name_twice:
  assumes "\<not> in_dict name (measure_dict st)"
    and "Measure_init st self1 (Some name) = (st1, m1)"
    and "Measure_init st1 self2 (Some name) = (st2, m2)"
  shows "(\<exists>k\<ge>1. short_name m2 = Some (name @ ''_'' @ str_nat k) \<and>
            \<not> in_dict (name @ ''_'' @ str_nat k) (measure_dict st1) \<and>
            (\<forall>j. 1 \<le> j \<and> j < k \<longrightarrow> in_dict (name @ ''_'' @ str_nat j) (measure_dict st1)) \<and>
            warnings st2 = warnings st @
              [''Measure `short_name` '' @ [CHR 0x27] @ name @ [CHR 0x27] @
               '' already exists, changed to '' @ [CHR 0x27] @ name @ ''_'' @ str_nat k @
               [CHR 0x27]] \<and>
            get_by_short_name st2 (name @ ''_'' @ str_nat k) = Some m2) \<and>
         (\<not> in_dict (name @ ''_1'') (measure_dict st) \<longrightarrow> short_name m2 = Some (name @ ''_1'')) \<and>
         (in_dict (name @ ''_1'') (measure_dict st) \<and> \<not> in_dict (name @ ''_2'') (measure_dict st) \<longrightarrow>
            short_name m2 = Some (name @ ''_2'')) \<and>
         short_name m1 = Some name \<and> warnings st1 = warnings st \<and>
         get_by_short_name st2 name = Some m1 \<and> m1 \<noteq> m2"
proof -
  let ?d = "measure_dict st"
  have c1: "choose_short_name self1 (Some name) = (self1\<lparr>inst_short_name := Some name\<rparr>, name)"
    by (simp add: choose_short_name_def)
  have c2: "choose_short_name self2 (Some name) = (self2\<lparr>inst_short_name := Some name\<rparr>, name)"
    by (simp add: choose_short_name_def)
  from Measure_init_fresh [OF c1 assms(1)] assms(2)
  have st1: "st1 = st\<lparr>measure_dict := ?d @ [(name, m1)]\<rparr>"
    and m1: "m1 = self1\<lparr>inst_short_name := Some name\<rparr>" by auto
  have d1: "measure_dict st1 = ?d @ [(name, m1)]" and w1: "warnings st1 = warnings st"
    by (simp_all add: st1)
  have taken: "in_dict name (measure_dict st1)"
    by (simp add: d1 in_dict_append in_dict_single)
  from Measure_init_taken [OF c2 taken] assms(3) obtain k where k: "1 \<le> k"
    "\<not> in_dict (gen_unique_name name k) (measure_dict st1)"
    "\<forall>j. 1 \<le> j \<and> j < k \<longrightarrow> in_dict (gen_unique_name name j) (measure_dict st1)"
    "st2 = st1\<lparr>warnings := warnings st1 @ [rename_warning name (gen_unique_name name k)],
               measure_dict := measure_dict st1 @ [(gen_unique_name name k, m2)]\<rparr>"
    "m2 = self2\<lparr>inst_short_name := Some (gen_unique_name name k)\<rparr>" by auto
  have n1: "short_name m1 = Some name" by (simp add: m1 short_name_def)
  have n2: "short_name m2 = Some (gen_unique_name name k)" by (simp add: k(5) short_name_def)
  have w2: "warnings st2 = warnings st @ [rename_warning name (gen_unique_name name k)]"
    by (simp add: k(4) w1)
  have d2: "measure_dict st2 = ?d @ [(name, m1), (gen_unique_name name k, m2)]"
    by (simp add: k(4) d1)
  have fresh_k: "\<not> in_dict (gen_unique_name name k) ?d"
    using k(2) by (simp add: d1 in_dict_append)
  have g1: "get_by_short_name st2 name = Some m1"
    using assms(1) gen_unique_name_neq [of name k]
    by (simp add: get_by_short_name_def d2 map_of_not_in_dict map_add_def)
  have g2: "get_by_short_name st2 (gen_unique_name name k) = Some m2"
    using fresh_k gen_unique_name_neq [of name k]
    by (simp add: get_by_short_name_def d2 map_of_not_in_dict map_add_def)
  have ne: "m1 \<noteq> m2"
    using n1 n2 gen_unique_name_neq [of name k] by auto
  have in1: "in_dict (gen_unique_name name j) (measure_dict st1) = in_dict (gen_unique_name name j) ?d"
    for j
    using gen_unique_name_neq [of name j] by (simp add: d1 in_dict_append in_dict_single)
  have first: "\<not> in_dict (name @ ''_1'') ?d \<longrightarrow> short_name m2 = Some (name @ ''_1'')"
  proof
    assume free: "\<not> in_dict (name @ ''_1'') ?d"
    have "k = 1"
    proof (rule ccontr)
      assume "k \<noteq> 1"
      with k(1) have "1 \<le> (1::nat) \<and> 1 < k" by simp
      with k(3) have "in_dict (gen_unique_name name 1) (measure_dict st1)" by blast
      then have "in_dict (gen_unique_name name 1) ?d" by (simp add: in1)
      with free show False by (simp add: gen_unique_name_1)
    qed
    with n2 show "short_name m2 = Some (name @ ''_1'')" by (simp add: gen_unique_name_1)
  qed
  have second: "in_dict (name @ ''_1'') ?d \<and> \<not> in_dict (name @ ''_2'') ?d \<longrightarrow>
      short_name m2 = Some (name @ ''_2'')"
  proof
    assume a: "in_dict (name @ ''_1'') ?d \<and> \<not> in_dict (name @ ''_2'') ?d"
    from a have "in_dict (gen_unique_name name 1) ?d" by (simp add: gen_unique_name_1)
    then have i1: "in_dict (gen_unique_name name 1) (measure_dict st1)" by (simp add: in1)
    from a have "\<not> in_dict (gen_unique_name name 2) ?d" by (simp add: gen_unique_name_2)
    then have i2: "\<not> in_dict (gen_unique_name name 2) (measure_dict st1)" by (simp add: in1)
    have "k \<noteq> 1" using i1 k(2) by auto
    moreover have "\<not> 2 < k"
    proof
      assume "2 < k"
      then have "1 \<le> (2::nat) \<and> 2 < k" by simp
      with k(3) have "in_dict (gen_unique_name name 2) (measure_dict st1)" by blast
      with i2 show False by simp
    qed
    ultimately have "k = 2" using k(1) by simp
    with n2 show "short_name m2 = Some (name @ ''_2'')" by (simp add: gen_unique_name_2)
  qed
  have g: "gen_unique_name name j = name @ ''_'' @ str_nat j" for j
    by (simp add: gen_unique_name_def)
  have w: "rename_warning name (gen_unique_name name k) =
      ''Measure `short_name` '' @ [CHR 0x27] @ name @ [CHR 0x27] @
      '' already exists, changed to '' @ [CHR 0x27] @ name @ ''_'' @ str_nat k @ [CHR 0x27]"
    by (simp add: rename_warning_def quoted_def gen_unique_name_def)
  have a1: "short_name m2 = Some (name @ ''_'' @ str_nat k)"
    using n2 unfolding g .
  have a2: "\<not> in_dict (name @ ''_'' @ str_nat k) (measure_dict st1)"
    using k(2) unfolding g .
  have a3: "\<forall>j. 1 \<le> j \<and> j < k \<longrightarrow> in_dict (name @ ''_'' @ str_nat j) (measure_dict st1)"
    using k(3) unfolding g .
  have a4: "warnings st2 = warnings st @
      [''Measure `short_name` '' @ [CHR 0x27] @ name @ [CHR 0x27] @
       '' already exists, changed to '' @ [CHR 0x27] @ name @ ''_'' @ str_nat k @ [CHR 0x27]]"
    using w2 unfolding w .
  have a5: "get_by_short_name st2 (name @ ''_'' @ str_nat k) = Some m2"
    using g2 unfolding g .
  have ex: "\<exists>k\<ge>1. short_name m2 = Some (name @ ''_'' @ str_nat k) \<and>
            \<not> in_dict (name @ ''_'' @ str_nat k) (measure_dict st1) \<and>
            (\<forall>j. 1 \<le> j \<and> j < k \<longrightarrow> in_dict (name @ ''_'' @ str_nat j) (measure_dict st1)) \<and>
            warnings st2 = warnings st @
              [''Measure `short_name` '' @ [CHR 0x27] @ name @ [CHR 0x27] @
               '' already exists, changed to '' @ [CHR 0x27] @ name @ ''_'' @ str_nat k @
               [CHR 0x27]] \<and>
            get_by_short_name st2 (name @ ''_'' @ str_nat k) = Some m2"
  proof (intro exI [of _ k] conjI)
    show "1 \<le> k" by (rule k(1))
    show "short_name m2 = Some (name @ ''_'' @ str_nat k)" by (rule a1)
    show "\<not> in_dict (name @ ''_'' @ str_nat k) (measure_dict st1)" by (rule a2)
    show "\<forall>j. 1 \<le> j \<and> j < k \<longrightarrow> in_dict (name @ ''_'' @ str_nat j) (measure_dict st1)"
      by (rule a3)
    show "warnings st2 = warnings st @
      [''Measure `short_name` '' @ [CHR 0x27] @ name @ [CHR 0x27] @
       '' already exists, changed to '' @ [CHR 0x27] @ name @ ''_'' @ str_nat k @ [CHR 0x27]]"
      by (rule a4)
    show "get_by_short_name st2 (name @ ''_'' @ str_nat k) = Some m2" by (rule a5)
  qed
  show ?thesis
  proof (intro conjI)
    show "\<exists>k\<ge>1. short_name m2 = Some (name @ ''_'' @ str_nat k) \<and>
            \<not> in_dict (name @ ''_'' @ str_nat k) (measure_dict st1) \<and>
            (\<forall>j. 1 \<le> j \<and> j < k \<longrightarrow> in_dict (name @ ''_'' @ str_nat j) (measure_dict st1)) \<and>
            warnings st2 = warnings st @
              [''Measure `short_name` '' @ [CHR 0x27] @ name @ [CHR 0x27] @
               '' already exists, changed to '' @ [CHR 0x27] @ name @ ''_'' @ str_nat k @
               [CHR 0x27]] \<and>
            get_by_short_name st2 (name @ ''_'' @ str_nat k) = Some m2" by (rule ex)
    show "\<not> in_dict (name @ ''_1'') ?d \<longrightarrow> short_name m2 = Some (name @ ''_1'')" by (rule first)
    show "in_dict (name @ ''_1'') ?d \<and> \<not> in_dict (name @ ''_2'') ?d \<longrightarrow>
      short_name m2 = Some (name @ ''_2'')" by (rule second)
    show "short_name m1 = Some name" by (rule n1)
    show "warnings st1 = warnings st" by (rule w1)
    show "get_by_short_name st2 name = Some m1" by (rule g1)
    show "m1 \<noteq> m2" by (rule ne)
  qed
qed

theorem same_name_twice_witness:
  "\<not> in_dict ''foo'' (measure_dict module_state) \<and>
   short_name (snd (Measure_init
      (fst (Measure_init module_state
         \<lparr>ident = 4, cls = trivial_class, inst_short_name = None, data_range = None, kwargs = []\<rparr>
         (Some ''foo'')))
      \<lparr>ident = 5, cls = trivial_class, inst_short_name = None, data_range = None, kwargs = []\<rparr>
      (Some ''foo''))) = Some ''foo_1'' \<and>
   warnings (fst (Measure_init
      (fst (Measure_init module_state
         \<lparr>ident = 4, cls = trivial_class, inst_short_name = None, data_range = None, kwargs = []\<rparr>
         (Some ''foo'')))
      \<lparr>ident = 5, cls = trivial_class, inst_short_name = None, data_range = None, kwargs = []\<rparr>
      (Some ''foo''))) =
     [''Measure `short_name` '' @ [CHR 0x27] @ ''foo'' @ [CHR 0x27] @
      '' already exists, changed to '' @ [CHR 0x27] @ ''foo_1'' @ [CHR 0x27]] \<and>
   get_by_short_name (fst (Measure_init
      (fst (Measure_init module_state
         \<lparr>ident = 4, cls = trivial_class, inst_short_name = None, data_range = None, kwargs = []\<rparr>
         (Some ''foo'')))
      \<lparr>ident = 5, cls = trivial_class, inst_short_name = None, data_range = None, kwargs = []\<rparr>
      (Some ''foo''))) ''foo'' =
     Some \<lparr>ident = 4, cls = trivial_class, inst_short_name = Some ''foo'', data_range = None,
            kwargs = []\<rparr> \<and>
   get_by_short_name (fst (Measure_init
      (fst (Measure_init module_state
         \<lparr>ident = 4, cls = trivial_class, inst_short_name = None, data_range = None, kwargs = []\<rparr>
         (Some ''foo'')))
      \<lparr>ident = 5, cls = trivial_class, inst_short_name = None, data_range = None, kwargs = []\<rparr>
      (Some ''foo''))) ''foo_1'' =
     Some \<lparr>ident = 5, cls = trivial_class, inst_short_name = Some ''foo_1'', data_range = None,
            kwargs = []\<rparr>"
proof -
  let ?a = "\<lparr>ident = 4, cls = trivial_class, inst_short_name = None, data_range = None,
              kwargs = []\<rparr>"
  let ?b = "\<lparr>ident = 5, cls = trivial_class, inst_short_name = None, data_range = None,
              kwargs = []\<rparr>"
  let ?r1 = "Measure_init module_state ?a (Some ''foo'')"
  let ?r2 = "Measure_init (fst ?r1) ?b (Some ''foo'')"
  have h: "\<not> in_dict ''foo'' (measure_dict module_state)"
    by (simp add: module_state_eval in_dict_def)
  have h1: "\<not> in_dict (''foo'' @ ''_1'') (measure_dict module_state)"
    by (simp add: module_state_eval in_dict_def)
  have e1: "?r1 = (fst ?r1, snd ?r1)" by simp
  have e2: "?r2 = (fst ?r2, snd ?r2)" by simp
  have m1: "snd ?r1 = ?a\<lparr>inst_short_name := Some ''foo''\<rparr>"
    using h by (simp add: Measure_init_def choose_short_name_def)
  note t = same_name_twice [OF h e1 e2]
  from t [THEN conjunct2, THEN conjunct1] h1
  have n2: "short_name (snd ?r2) = Some (''foo'' @ ''_1'')" by (rule mp)
  from t [THEN conjunct2, THEN conjunct2, THEN conjunct2, THEN conjunct2, THEN conjunct2,
      THEN conjunct1]
  have g1: "get_by_short_name (fst ?r2) ''foo'' = Some (snd ?r1)" .
  from t [THEN conjunct1] obtain k where kk:
    "1 \<le> k \<and> short_name (snd ?r2) = Some (''foo'' @ ''_'' @ str_nat k) \<and>
     \<not> in_dict (''foo'' @ ''_'' @ str_nat k) (measure_dict (fst ?r1)) \<and>
     (\<forall>j. 1 \<le> j \<and> j < k \<longrightarrow> in_dict (''foo'' @ ''_'' @ str_nat j) (measure_dict (fst ?r1))) \<and>
     warnings (fst ?r2) = warnings module_state @
       [''Measure `short_name` '' @ [CHR 0x27] @ ''foo'' @ [CHR 0x27] @
        '' already exists, changed to '' @ [CHR 0x27] @ ''foo'' @ ''_'' @ str_nat k @
        [CHR 0x27]] \<and>
     get_by_short_name (fst ?r2) (''foo'' @ ''_'' @ str_nat k) = Some (snd ?r2)" ..
  from kk [THEN conjunct2, THEN conjunct1] n2 have sk: "str_nat k = ''1''" by simp
  from kk [THEN conjunct2, THEN conjunct2, THEN conjunct2, THEN conjunct2, THEN conjunct1]
  have w2: "warnings (fst ?r2) =
      [''Measure `short_name` '' @ [CHR 0x27] @ ''foo'' @ [CHR 0x27] @
       '' already exists, changed to '' @ [CHR 0x27] @ ''foo_1'' @ [CHR 0x27]]"
    by (simp add: sk module_state_eval)
  from kk [THEN conjunct2, THEN conjunct2, THEN conjunct2, THEN conjunct2, THEN conjunct2]
  have g2: "get_by_short_name (fst ?r2) (''foo'' @ ''_1'') = Some (snd ?r2)"
    by (simp add: sk)
  have c2: "class_short_name (cls (snd ?r2)) = Some []"
    by (simp add: Measure_init_def choose_short_name_def Let_def trivial_class_def)
  have "inst_short_name (snd ?r2) = Some (''foo'' @ ''_1'')"
    using n2 c2 by (simp add: short_name_def split: option.splits)
  moreover have "snd ?r2 = ?b\<lparr>inst_short_name := inst_short_name (snd ?r2)\<rparr>"
    by (simp add: Measure_init_def choose_short_name_def Let_def)
  ultimately have m2: "snd ?r2 = ?b\<lparr>inst_short_name := Some (''foo'' @ ''_1'')\<rparr>"
    by simp
  from h n2 w2 g1 g2 show ?thesis by (simp add: m1 m2)
qed

subsection \<open>The short name of a class that declares none\<close>

text \<open>
  What \<^verbatim>\<open>__init__\<close> does without an explicit short name: the class's own name is used
  only when the class attribute \<^verbatim>\<open>short_name\<close> is \<^verbatim>\<open>None\<close>; a direct subclass of
  \<^verbatim>\<open>Measure\<close> that declares no \<^verbatim>\<open>short_name\<close> inherits the empty string, which is not
  \<^verbatim>\<open>None\<close>.
\<close>

lemma class_name_fallback:
  assumes "class_short_name (cls self) = None" and "inst_short_name self = None"
    and "\<not> in_dict (class_name (cls self)) (measure_dict st)"
  shows "short_name (snd (Measure_init st self None)) = Some (class_name (cls self))"
proof -
  have "choose_short_name self None =
      (self\<lparr>inst_short_name := Some (class_name (cls self))\<rparr>, class_name (cls self))"
    using assms(1,2) by (simp add: choose_short_name_def short_name_def)
  from Measure_init_fresh [OF this assms(3)] show ?thesis by (simp add: short_name_def)
qed

lemma undeclared_short_name_is_empty: "class_short_name (Subclass n None a MeasureBase) = Some []"
  by simp

text \<open>
  Claim C2 says that a measure constructed without an explicit short name, of a class
  that declares no short name of its own, is registered under the name of its class, as
  the docstring of \<^verbatim>\<open>__init__\<close> says (lines 66-67). The code does not do so: after the
  module is loaded, \<^verbatim>\<open>Trivial()\<close> for the class \<open>trivial_class\<close>, which declares no short
  name, succeeds and is registered under the empty string; nothing is registered under
  \<^verbatim>\<open>Trivial\<close>.
\<close>

theorem undeclared_short_name_registered_as_empty:
  "\<exists>st' m. new_Measure module_state trivial_class None = Inr (st', m) \<and>
     short_name m = Some [] \<and> short_name m \<noteq> Some (class_name trivial_class) \<and>
     get_by_short_name st' [] = Some m \<and>
     get_by_short_name st' (class_name trivial_class) = None"
  by (simp add: new_Measure_def trivial_class_def allocate_def Measure_init_def choose_short_name_def
      short_name_def module_state_eval in_dict_def get_by_short_name_def)

subsection \<open>Constructions preserve the registry\<close>

text \<open>
  Claim C3. Whenever \<^verbatim>\<open>__init__\<close> runs on a registry with pairwise distinct keys (as every
  dictionary has), each entry that was registered is still returned unchanged by
  \<open>get_by_short_name\<close>; the new registry is the old one with one entry added, for the
  new instance, under its short name, which was not a key before; and the keys of the new
  registry are again pairwise distinct. Every constructor of the module registers through
  \<^verbatim>\<open>Measure.__init__\<close>.
\<close>

theorem registry_preserved:
  assumes "distinct (map fst (measure_dict st))"
  shows "(\<forall>k v. get_by_short_name st k = Some v \<longrightarrow>
            get_by_short_name (fst (Measure_init st self sn)) k = Some v) \<and>
         (\<exists>n. short_name (snd (Measure_init st self sn)) = Some n \<and>
            \<not> in_dict n (measure_dict st) \<and>
            measure_dict (fst (Measure_init st self sn)) =
              measure_dict st @ [(n, snd (Measure_init st self sn))] \<and>
            get_by_short_name (fst (Measure_init st self sn)) n = Some (snd (Measure_init st self sn))) \<and>
         distinct (map fst (measure_dict (fst (Measure_init st self sn))))"
proof -
  from Measure_init_appends [of st self sn] obtain n where n:
    "short_name (snd (Measure_init st self sn)) = Some n" "\<not> in_dict n (measure_dict st)"
    "measure_dict (fst (Measure_init st self sn)) = measure_dict st @ [(n, snd (Measure_init st self sn))]"
    by blast
  have old: "\<forall>k v. get_by_short_name st k = Some v \<longrightarrow>
            get_by_short_name (fst (Measure_init st self sn)) k = Some v"
    by (simp add: get_by_short_name_def n(3))
  have new: "get_by_short_name (fst (Measure_init st self sn)) n = Some (snd (Measure_init st self sn))"
    using n(2) by (simp add: get_by_short_name_def n(3) map_of_not_in_dict map_add_def)
  have dist: "distinct (map fst (measure_dict (fst (Measure_init st self sn))))"
    using assms n(2) by (simp add: n(3) in_dict_def)
  from old new dist n show ?thesis by blast
qed

theorem registry_preserved_witness:
  "distinct (map fst (measure_dict module_state)) \<and>
   get_by_short_name
     (fst (Measure_init module_state (snd (allocate module_state trivial_class)) (Some ''psnr'')))
     ''psnr'' = get_by_short_name module_state ''psnr'' \<and>
   distinct (map fst (measure_dict
     (fst (Measure_init module_state (snd (allocate module_state trivial_class)) (Some ''psnr'')))))"
proof -
  let ?r = "Measure_init module_state (snd (allocate module_state trivial_class)) (Some ''psnr'')"
  have h: "distinct (map fst (measure_dict module_state))"
    by (simp add: module_state_eval)
  obtain v where v: "get_by_short_name module_state ''psnr'' = Some v"
    by (simp add: module_state_eval get_by_short_name_def)
  from registry_preserved [OF h, of "snd (allocate module_state trivial_class)" "Some ''psnr''"] v
  have "get_by_short_name (fst ?r) ''psnr'' = Some v"
    and "distinct (map fst (measure_dict (fst ?r)))" by blast+
  with h v show ?thesis by simp
qed

subsection \<open>Lookup by short name\<close>

text \<open>
  Claim C9. \<open>get_by_short_name\<close> returns \<open>None\<close>, and no error, for a string that is not a
  key of the registry, and for a key it returns an instance registered under that key.
\<close>

theorem get_by_short_name_lookup:
  "(\<not> in_dict s (measure_dict st) \<longrightarrow> get_by_short_name st s = None) \<and>
   (in_dict s (measure_dict st) \<longrightarrow>
      (\<exists>m. get_by_short_name st s = Some m \<and> (s, m) \<in> set (measure_dict st)))"
proof (intro conjI impI)
  assume "\<not> in_dict s (measure_dict st)"
  then show "get_by_short_name st s = None"
    by (simp add: get_by_short_name_def map_of_not_in_dict)
next
  assume "in_dict s (measure_dict st)"
  then obtain m where "map_of (measure_dict st) s = Some m"
    by (auto simp: in_dict_def dest: weak_map_of_SomeI)
  then show "\<exists>m. get_by_short_name st s = Some m \<and> (s, m) \<in> set (measure_dict st)"
    by (auto simp: get_by_short_name_def dest: map_of_SomeD)
qed

theorem get_by_short_name_lookup_witness:
  "get_by_short_name module_state ''foo'' = None \<and>
   (\<exists>m. get_by_short_name module_state ''l2'' = Some m \<and> (''l2'', m) \<in> set (measure_dict module_state))"
proof -
  have a: "\<not> in_dict ''foo'' (measure_dict module_state)"
    by (simp add: module_state_eval in_dict_def)
  have b: "in_dict ''l2'' (measure_dict module_state)"
    by (simp add: module_state_eval in_dict_def)
  from get_by_short_name_lookup [of "''foo''" module_state] a
  have "get_by_short_name module_state ''foo'' = None" by blast
  moreover from get_by_short_name_lookup [of "''l2''" module_state] b
  have "\<exists>m. get_by_short_name module_state ''l2'' = Some m \<and> (''l2'', m) \<in> set (measure_dict module_state)"
    by blast
  ultimately show ?thesis by blast
qed

section \<open>Properties of the measures\<close>

subsection \<open>What the constructors leave in the instance\<close>

lemma Measure_init_keeps:
  "cls (snd (Measure_init st self sn)) = cls self \<and>
   data_range (snd (Measure_init st self sn)) = data_range self \<and>
   kwargs (snd (Measure_init st self sn)) = kwargs self \<and>
   ident (snd (Measure_init st self sn)) = ident self"
  by (auto simp: Measure_init_def choose_short_name_def Let_def split: option.splits)

lemma new_PSNRMeasure_data_range [simp]:
  "data_range (snd (new_PSNRMeasure fmt st dr sn)) = dr"
  by (simp add: new_PSNRMeasure_def allocate_def Measure_init_keeps)

lemma new_SSIMMeasure_data_range [simp]:
  "data_range (snd (new_SSIMMeasure fmt st sn dr kw)) = dr"
  by (simp add: new_SSIMMeasure_def allocate_def Measure_init_keeps)

lemma new_SSIMMeasure_kwargs [simp]:
  "kwargs (snd (new_SSIMMeasure fmt st sn dr kw)) = AList.delete ''data_range'' kw"
  by (simp add: new_SSIMMeasure_def allocate_def Measure_init_keeps)

subsection \<open>The difference of an array and itself\<close>

lemma wrap_0 [simp]: "wrap t 0 = 0"
  by (cases t) (simp_all add: wrap_def)

lemma result_type_same [simp]: "result_type t t = Some t"
  by (simp add: result_type_def)

lemma broadcast2_same: "broadcast2 f a a = Inr (map (\<lambda>x. f x x) a)"
  by (simp add: broadcast2_def map2_map_map [symmetric] zip_same_conv_map)

lemma sum_list_zeros: "sum_list (map (\<lambda>x. 0 :: real) a) = 0"
  by (induction a) simp_all

lemma mean_square_zeros_int:
  assumes "a \<noteq> []"
  shows "np_mean (np_square (IntArray t (map (\<lambda>x. wrap t (x - x)) a))) = Finite 0"
proof -
  have "to_float (np_square (IntArray t (map (\<lambda>x. wrap t (x - x)) a))) = map (\<lambda>x. 0) a"
    by (simp add: comp_def)
  with assms show ?thesis by (simp add: np_mean_def sum_list_zeros del: np_square.simps)
qed

lemma mean_square_zeros_float:
  assumes "a \<noteq> []"
  shows "np_mean (np_square (FloatArray (map (\<lambda>x. x - x) a))) = Finite 0"
proof -
  have "to_float (np_square (FloatArray (map (\<lambda>x. x - x) a))) = map (\<lambda>x. 0) a"
    by (simp add: comp_def)
  with assms show ?thesis by (simp add: np_mean_def sum_list_zeros del: np_square.simps)
qed

lemma mse_same:
  assumes "0 < np_size a"
  shows "\<exists>diff. np_subtract a a = Inr diff \<and> np_mean (np_square diff) = Finite 0"
proof (cases a)
  case (IntArray t xs)
  with assms have ne: "xs \<noteq> []" by auto
  have "np_subtract a a = Inr (IntArray t (map (\<lambda>x. wrap t (x - x)) xs))"
    by (simp add: IntArray broadcast2_same)
  with mean_square_zeros_int [OF ne] show ?thesis by blast
next
  case (FloatArray xs)
  with assms have ne: "xs \<noteq> []" by auto
  have "np_subtract a a = Inr (FloatArray (map (\<lambda>x. x - x) xs))"
    by (simp add: FloatArray float_subtract_def broadcast2_same)
  with mean_square_zeros_float [OF ne] show ?thesis by blast
qed

lemma np_mean_cases: "np_mean a = NaN \<or> (\<exists>x. np_mean a = Finite x)"
  by (simp add: np_mean_def)

lemma MSEMeasure_apply_cases:
  assumes "MSEMeasure_apply r g = Inr m"
  obtains diff where "np_subtract (np_asarray r) (np_asarray g) = Inr diff"
    "m = np_mean (np_square diff)"
  using assms by (auto simp: MSEMeasure_apply_def split: sum.splits)

lemma MSEMeasure_apply_value:
  assumes "MSEMeasure_apply r g = Inr m"
  shows "m = NaN \<or> (\<exists>x. m = Finite x)"
proof -
  from assms obtain diff where "m = np_mean (np_square diff)" by (rule MSEMeasure_apply_cases)
  with np_mean_cases [of "np_square diff"] show ?thesis by simp
qed

lemma gt_range_Max_Min:
  "gt_range (IntArray t a) =
     (if a = [] then Inl ValueError else Inr (real_of_int (wrap t (Max (set a) - Min (set a)))))"
  "gt_range (FloatArray b) =
     (if b = [] then Inl ValueError else Inr (Max (set b) - Min (set b)))"
proof -
  show "gt_range (IntArray t a) =
     (if a = [] then Inl ValueError else Inr (real_of_int (wrap t (Max (set a) - Min (set a)))))"
  proof (cases a)
    case Nil
    then show ?thesis by (simp add: np_max_def)
  next
    case (Cons x xs)
    have hi: "fold max xs x = Max (set a)"
      unfolding Cons by (rule Max.set_eq_fold [symmetric])
    have lo: "fold min xs x = Min (set a)"
      unfolding Cons by (rule Min.set_eq_fold [symmetric])
    have "gt_range (IntArray t a) = Inr (real_of_int (wrap t (fold max xs x - fold min xs x)))"
      by (simp add: Cons np_max_def np_min_def)
    then show ?thesis using Cons by (simp only: hi lo) simp
  qed
  show "gt_range (FloatArray b) =
     (if b = [] then Inl ValueError else Inr (Max (set b) - Min (set b)))"
  proof (cases b)
    case Nil
    then show ?thesis by (simp add: np_max_def)
  next
    case (Cons x xs)
    have hi: "fold max xs x = Max (set b)"
      unfolding Cons by (rule Max.set_eq_fold [symmetric])
    have lo: "fold min xs x = Min (set b)"
      unfolding Cons by (rule Min.set_eq_fold [symmetric])
    have "gt_range (FloatArray b) = Inr (fold max xs x - fold min xs x)"
      by (simp add: Cons np_max_def np_min_def)
    then show ?thesis using Cons by (simp only: hi lo) simp
  qed
qed

subsection \<open>PSNR of a reconstruction against itself\<close>

text \<open>
  Claim C4, amended: for every array-like \<open>r\<close> whose array is not empty and every
  instance, whatever its data range, \<^verbatim>\<open>PSNRMeasure.apply(r, r)\<close> returns positive infinity:
  the mean squared error is zero and the result is returned before any logarithm is
  taken. This holds for arrays of every integer element type and for \<^verbatim>\<open>float64\<close> arrays:
  the difference of an element and itself is zero in each of them.
\<close>

theorem psnr_same_nonempty:
  assumes "0 < np_size (np_asarray r)"
  shows "PSNRMeasure_apply self r r = Inr PInf"
proof -
  from mse_same [OF assms] obtain diff where
    "np_subtract (np_asarray r) (np_asarray r) = Inr diff" "np_mean (np_square diff) = Finite 0"
    by blast
  then show ?thesis by (simp add: PSNRMeasure_apply_def)
qed

theorem psnr_same_nonempty_witness:
  "0 < np_size (np_asarray (NdArray (IntArray Int64 [1, 2]))) \<and>
   PSNRMeasure_apply PSNR (NdArray (IntArray Int64 [1, 2])) (NdArray (IntArray Int64 [1, 2])) = Inr PInf \<and>
   PSNRMeasure_apply (snd (new_PSNRMeasure (\<lambda>d. ''4'') module_state (Some 4) None))
     (OdlElement [1 / 2, 3]) (OdlElement [1 / 2, 3]) = Inr PInf"
proof -
  have a: "0 < np_size (np_asarray (NdArray (IntArray Int64 [1, 2])))" by simp
  have b: "0 < np_size (np_asarray (OdlElement [1 / 2, 3]))" by simp
  from psnr_same_nonempty [OF a] psnr_same_nonempty [OF b] a show ?thesis by simp
qed

text \<open>
  The claim as stated covers every array. For the empty array the mean is not-a-number,
  the test \<^verbatim>\<open>mse == 0.\<close> is false, and the module's instance \<^verbatim>\<open>PSNR\<close>, which has no data
  range, raises \<^verbatim>\<open>ValueError\<close> when it takes the maximum of the empty ground truth.
\<close>

theorem psnr_same_empty_counterexample:
  "PSNRMeasure_apply PSNR (NdArray (FloatArray [])) (NdArray (FloatArray [])) = Inl ValueError \<and>
   PSNRMeasure_apply PSNR (NdArray (FloatArray [])) (NdArray (FloatArray [])) \<noteq> Inr PInf"
  by (simp add: PSNRMeasure_apply_def float_subtract_def broadcast2_def np_mean_def
      psnr_data_range_def np_max_def module_instances_eval)

text \<open>With a data range of 4 the result for the empty array is not-a-number.\<close>

lemma psnr_same_empty_range4:
  "PSNRMeasure_apply (snd (new_PSNRMeasure fmt st (Some 4) sn))
     (NdArray (FloatArray [])) (NdArray (FloatArray [])) = Inr NaN"
  by (simp add: PSNRMeasure_apply_def float_subtract_def broadcast2_def np_mean_def
      psnr_data_range_def psnr_value_def pf_minus_def)

subsection \<open>PSNR with an explicit data range\<close>

text \<open>
  With an explicit data range \<open>d\<close> other than zero and a mean squared error that is not
  zero, the result is \<^verbatim>\<open>20*log10(d) - 10*log10(mse)\<close>.
\<close>

lemma psnr_explicit_nonzero_range:
  assumes "d \<noteq> 0" and "MSEMeasure_apply r g = Inr mse" and "\<not> pf_eq mse (Finite 0)"
  shows "PSNRMeasure_apply (snd (new_PSNRMeasure fmt st (Some d) sn)) r g = Inr (psnr_value d mse)"
proof -
  from assms(2) obtain diff where "np_subtract (np_asarray r) (np_asarray g) = Inr diff"
    "mse = np_mean (np_square diff)"
    by (rule MSEMeasure_apply_cases)
  with assms(1,3) show ?thesis
    by (simp add: PSNRMeasure_apply_def psnr_data_range_def)
qed

text \<open>
  The second scenario of the specification: ground truth \<^verbatim>\<open>[0,0,0,4]\<close>, reconstruction
  \<^verbatim>\<open>[0,0,0,0]\<close>, data range 4; the value lies between 6.02 and 6.03.
\<close>

lemma mse_scenario_2:
  "MSEMeasure_apply (NdArray (IntArray Int64 [0, 0, 0, 0])) (NdArray (IntArray Int64 [0, 0, 0, 4])) =
     Inr (Finite 4)"
  "MSEMeasure_apply (NdArray (FloatArray [0, 0, 0, 0])) (NdArray (FloatArray [0, 0, 0, 4])) =
     Inr (Finite 4)"
  by (simp_all add: MSEMeasure_apply_def broadcast2_def np_mean_def wrap_def result_type_def
      float_subtract_def)

lemma psnr_value_4_4: "psnr_value 4 (Finite 4) = Finite (20 * log 10 4 - 10 * log 10 4)"
  by (simp add: psnr_value_def pf_minus_def)

lemma psnr_scenario_2:
  "PSNRMeasure_apply (snd (new_PSNRMeasure fmt st (Some 4) sn))
     (NdArray (IntArray Int64 [0, 0, 0, 0])) (NdArray (IntArray Int64 [0, 0, 0, 4])) =
     Inr (Finite (20 * log 10 4 - 10 * log 10 4))"
  using psnr_explicit_nonzero_range [of 4 "NdArray (IntArray Int64 [0, 0, 0, 0])"
      "NdArray (IntArray Int64 [0, 0, 0, 4])" "Finite 4" fmt st sn]
  by (simp add: mse_scenario_2 psnr_value_4_4)

lemma log10_2_lower: "59 / 196 < log 10 (2::real)"
proof -
  have "(10::real) ^ 59 < 2 ^ 196" by simp
  then have "log 10 ((10::real) ^ 59) < log 10 (2 ^ 196)"
    by (subst log_less_cancel_iff) simp_all
  moreover have "log 10 ((10::real) ^ 59) = real 59 * log 10 10"
    by (rule log_nat_power) simp
  moreover have "log 10 ((2::real) ^ 196) = real 196 * log 10 2"
    by (rule log_nat_power) simp
  ultimately have "real 59 * log 10 10 < real 196 * log 10 2" by (simp only:)
  then show ?thesis by simp
qed

lemma log10_2_upper: "log 10 (2::real) < 28 / 93"
proof -
  have "(2::real) ^ 93 < 10 ^ 28" by simp
  then have "log 10 ((2::real) ^ 93) < log 10 (10 ^ 28)"
    by (subst log_less_cancel_iff) simp_all
  moreover have "log 10 ((10::real) ^ 28) = real 28 * log 10 10"
    by (rule log_nat_power) simp
  moreover have "log 10 ((2::real) ^ 93) = real 93 * log 10 2"
    by (rule log_nat_power) simp
  ultimately have "real 93 * log 10 2 < real 28 * log 10 10" by (simp only:)
  then show ?thesis by simp
qed

lemma log10_4: "log 10 (4::real) = 2 * log 10 2"
proof -
  have "log 10 ((2::real) ^ 2) = real 2 * log 10 2" by (rule log_nat_power) simp
  then show ?thesis by simp
qed

lemma psnr_scenario_2_approx:
  "602 / 100 < 20 * log 10 (4::real) - 10 * log 10 4 \<and> 20 * log 10 (4::real) - 10 * log 10 4 < 603 / 100"
  using log10_2_lower log10_2_upper by (simp add: log10_4)

text \<open>
  Claim C5 says that for every explicitly supplied data range \<open>d\<close> and every pair of
  arrays of equal shape with a mean squared error \<open>mse\<close> that is not zero the result is
  \<^verbatim>\<open>20*log10(d) - 10*log10(mse)\<close>, as the docstring of the class says (the range of the
  ground truth is used if \<^verbatim>\<open>data_range\<close> is \<^verbatim>\<open>None\<close>). The code does not do so for
  \<open>d = 0\<close>: with the arrays of the second scenario, as \<^verbatim>\<open>int64\<close> or as \<^verbatim>\<open>float64\<close>, the
  mean squared error is 4 and the result is the one for the range \<open>4 - 0\<close> of the ground
  truth, whereas the formula of the claim gives minus infinity for \<open>d = 0\<close>.
\<close>

theorem psnr_zero_data_range_not_used:
  "MSEMeasure_apply (NdArray (IntArray Int64 [0, 0, 0, 0])) (NdArray (IntArray Int64 [0, 0, 0, 4])) =
     Inr (Finite 4) \<and>
   PSNRMeasure_apply (snd (new_PSNRMeasure fmt st (Some 0) sn))
     (NdArray (IntArray Int64 [0, 0, 0, 0])) (NdArray (IntArray Int64 [0, 0, 0, 4])) =
     Inr (Finite (20 * log 10 4 - 10 * log 10 4)) \<and>
   MSEMeasure_apply (NdArray (FloatArray [0, 0, 0, 0])) (NdArray (FloatArray [0, 0, 0, 4])) =
     Inr (Finite 4) \<and>
   PSNRMeasure_apply (snd (new_PSNRMeasure fmt st (Some 0) sn))
     (NdArray (FloatArray [0, 0, 0, 0])) (NdArray (FloatArray [0, 0, 0, 4])) =
     Inr (Finite (20 * log 10 4 - 10 * log 10 4)) \<and>
   psnr_value 0 (Finite 4) = NInf"
proof (intro conjI)
  show "MSEMeasure_apply (NdArray (IntArray Int64 [0, 0, 0, 0])) (NdArray (IntArray Int64 [0, 0, 0, 4])) =
     Inr (Finite 4)" by (rule mse_scenario_2)
  show "MSEMeasure_apply (NdArray (FloatArray [0, 0, 0, 0])) (NdArray (FloatArray [0, 0, 0, 4])) =
     Inr (Finite 4)" by (rule mse_scenario_2)
  show "PSNRMeasure_apply (snd (new_PSNRMeasure fmt st (Some 0) sn))
     (NdArray (IntArray Int64 [0, 0, 0, 0])) (NdArray (IntArray Int64 [0, 0, 0, 4])) =
     Inr (Finite (20 * log 10 4 - 10 * log 10 4))"
    by (simp add: PSNRMeasure_apply_def broadcast2_def np_mean_def wrap_def result_type_def
        psnr_data_range_def np_max_def np_min_def psnr_value_def pf_minus_def)
  show "PSNRMeasure_apply (snd (new_PSNRMeasure fmt st (Some 0) sn))
     (NdArray (FloatArray [0, 0, 0, 0])) (NdArray (FloatArray [0, 0, 0, 4])) =
     Inr (Finite (20 * log 10 4 - 10 * log 10 4))"
    by (simp add: PSNRMeasure_apply_def float_subtract_def broadcast2_def np_mean_def
        psnr_data_range_def np_max_def np_min_def psnr_value_def pf_minus_def)
  show "psnr_value 0 (Finite 4) = NInf"
    by (simp add: psnr_value_def pf_minus_def)
qed

subsection \<open>L2 and MSE\<close>

text \<open>
  \<^verbatim>\<open>L2Measure.apply\<close> and \<^verbatim>\<open>MSEMeasure.apply\<close> return floating-point numbers that are computed
  along different routes (a norm; a mean of squares). Whether one of them equals a
  floating-point expression in the other is decided by the rounding of each operation,
  which the values above do not carry, so no such relation is stated here; the lemmas
  below give the values of both at particular arrays.

  The first scenario of the specification: for \<^verbatim>\<open>r = [1,1,1]\<close> and \<^verbatim>\<open>g = [0,0,0]\<close> the L2
  distance is the square root of 3 and the mean squared error is 1.
\<close>

lemma l2_mse_scenario_1:
  "L2Measure_apply (NdArray (IntArray Int64 [1, 1, 1])) (NdArray (IntArray Int64 [0, 0, 0])) =
     Inr (Finite (sqrt 3)) \<and>
   MSEMeasure_apply (NdArray (IntArray Int64 [1, 1, 1])) (NdArray (IntArray Int64 [0, 0, 0])) =
     Inr (Finite 1)"
  by (simp add: MSEMeasure_apply_def L2Measure_apply_def broadcast2_def np_mean_def
      np_linalg_norm_def wrap_def result_type_def)

text \<open>
  For two empty arrays the L2 distance is 0 and the mean squared error is not-a-number,
  as is the square root of its product with the number of elements.
\<close>

lemma l2_mse_empty_values:
  "L2Measure_apply (NdArray (FloatArray [])) (NdArray (FloatArray [])) = Inr (Finite 0) \<and>
   MSEMeasure_apply (NdArray (FloatArray [])) (NdArray (FloatArray [])) = Inr NaN \<and>
   np_sqrt (pf_times NaN (Finite 0)) = NaN"
  by (simp add: MSEMeasure_apply_def L2Measure_apply_def float_subtract_def broadcast2_def
      np_mean_def np_linalg_norm_def)

text \<open>
  For \<^verbatim>\<open>int64\<close> arrays the square taken for the mean wraps around, while the norm is taken
  of the difference as \<^verbatim>\<open>float64\<close>: for \<^verbatim>\<open>r = [4000000000]\<close> and \<^verbatim>\<open>g = [0]\<close> the L2 distance
  is 4000000000 and the mean squared error is negative.
\<close>

lemma l2_mse_wrapped_values:
  "L2Measure_apply (NdArray (IntArray Int64 [4000000000])) (NdArray (IntArray Int64 [0])) =
     Inr (Finite 4000000000) \<and>
   MSEMeasure_apply (NdArray (IntArray Int64 [4000000000])) (NdArray (IntArray Int64 [0])) =
     Inr (Finite (- 2446744073709551616)) \<and>
   np_sqrt (pf_times (Finite (- 2446744073709551616)) (Finite 1)) = NaN"
proof -
  have "sqrt (4000000000 * 4000000000) = (4000000000 :: real)"
    using real_sqrt_abs2 [of 4000000000] by (simp add: power2_eq_square)
  then show ?thesis
    by (simp add: MSEMeasure_apply_def L2Measure_apply_def broadcast2_def np_mean_def
        np_linalg_norm_def wrap_def result_type_def)
qed

text \<open>
  For \<^verbatim>\<open>uint8\<close> arrays the difference wraps around already: for \<^verbatim>\<open>r = [0]\<close> and \<^verbatim>\<open>g = [20]\<close>
  the difference is 236, its square in \<^verbatim>\<open>uint8\<close> is 144, and the norm is taken of 236.
\<close>

lemma l2_mse_uint8_values:
  "np_subtract (IntArray UInt8 [0]) (IntArray UInt8 [20]) = Inr (IntArray UInt8 [236]) \<and>
   np_square (IntArray UInt8 [236]) = IntArray UInt8 [144] \<and>
   MSEMeasure_apply (NdArray (IntArray UInt8 [0])) (NdArray (IntArray UInt8 [20])) =
     Inr (Finite 144) \<and>
   L2Measure_apply (NdArray (IntArray UInt8 [0])) (NdArray (IntArray UInt8 [20])) =
     Inr (Finite 236)"
proof -
  have "sqrt (236 * 236) = (236 :: real)"
    using real_sqrt_abs2 [of 236] by (simp add: power2_eq_square)
  then show ?thesis
    by (simp add: MSEMeasure_apply_def L2Measure_apply_def broadcast2_def np_mean_def
        np_linalg_norm_def wrap_def result_type_def)
qed

subsection \<open>PSNR decreases when the error grows\<close>

text \<open>
  Claim C7, amended: for every instance constructed with a data range \<open>d > 0\<close> and every two
  pairs of arrays whose mean squared errors \<open>m1\<close> and \<open>m2\<close> are greater than zero and
  satisfy \<open>m1 \<le> m2\<close>, both applications return a value, and the value for the second pair
  is less than or equal to the value for the first.
\<close>

theorem psnr_monotone:
  assumes "0 < d"
    and "MSEMeasure_apply r1 g1 = Inr m1" and "MSEMeasure_apply r2 g2 = Inr m2"
    and "pf_le (Finite 0) m1" and "\<not> pf_eq m1 (Finite 0)" and "pf_le m1 m2"
  shows "\<exists>v1 v2.
           PSNRMeasure_apply (snd (new_PSNRMeasure fmt st (Some d) sn)) r1 g1 = Inr v1 \<and>
           PSNRMeasure_apply (snd (new_PSNRMeasure fmt st (Some d) sn)) r2 g2 = Inr v2 \<and>
           pf_le v2 v1"
proof -
  from MSEMeasure_apply_value [OF assms(2)] assms(4) obtain x1 where x1: "m1 = Finite x1"
    by auto
  from MSEMeasure_apply_value [OF assms(3)] assms(6) x1 obtain x2 where x2: "m2 = Finite x2"
    by auto
  from assms(4,5,6) x1 x2 have ord: "0 < x1" "x1 \<le> x2" "0 < x2" by auto
  have d0: "d \<noteq> 0" using assms(1) by simp
  have n2: "\<not> pf_eq m2 (Finite 0)" using ord x2 by simp
  have v1: "PSNRMeasure_apply (snd (new_PSNRMeasure fmt st (Some d) sn)) r1 g1 =
      Inr (psnr_value d m1)"
    using d0 assms(2,5) by (rule psnr_explicit_nonzero_range)
  have v2: "PSNRMeasure_apply (snd (new_PSNRMeasure fmt st (Some d) sn)) r2 g2 =
      Inr (psnr_value d m2)"
    using d0 assms(3) n2 by (rule psnr_explicit_nonzero_range)
  have "log 10 x1 \<le> log 10 x2" using ord by simp
  then have "pf_le (psnr_value d m2) (psnr_value d m1)"
    using assms(1) ord by (simp add: psnr_value_def pf_minus_def x1 x2)
  with v1 v2 show ?thesis by blast
qed

theorem psnr_monotone_witness:
  "(0::real) < 4 \<and>
   MSEMeasure_apply (NdArray (IntArray Int64 [0, 0])) (NdArray (IntArray Int64 [0, 2])) =
     Inr (Finite 2) \<and>
   MSEMeasure_apply (NdArray (IntArray Int64 [0, 0, 0, 0])) (NdArray (IntArray Int64 [0, 0, 0, 4])) =
     Inr (Finite 4) \<and>
   pf_le (Finite 0) (Finite 2) \<and> \<not> pf_eq (Finite 2) (Finite 0) \<and> pf_le (Finite 2) (Finite 4) \<and>
   (\<exists>v1 v2.
      PSNRMeasure_apply (snd (new_PSNRMeasure (\<lambda>d. ''4'') module_state (Some 4) None))
        (NdArray (IntArray Int64 [0, 0])) (NdArray (IntArray Int64 [0, 2])) = Inr v1 \<and>
      PSNRMeasure_apply (snd (new_PSNRMeasure (\<lambda>d. ''4'') module_state (Some 4) None))
        (NdArray (IntArray Int64 [0, 0, 0, 0])) (NdArray (IntArray Int64 [0, 0, 0, 4])) = Inr v2 \<and>
      pf_le v2 v1)"
proof -
  have a: "(0::real) < 4" by simp
  have b: "MSEMeasure_apply (NdArray (IntArray Int64 [0, 0])) (NdArray (IntArray Int64 [0, 2])) =
      Inr (Finite 2)"
    by (simp add: MSEMeasure_apply_def broadcast2_def np_mean_def wrap_def)
  have c: "MSEMeasure_apply (NdArray (IntArray Int64 [0, 0, 0, 0]))
      (NdArray (IntArray Int64 [0, 0, 0, 4])) = Inr (Finite 4)" by (rule mse_scenario_2)
  have e: "pf_le (Finite 0) (Finite 2)" and f: "\<not> pf_eq (Finite 2) (Finite 0)"
    and g: "pf_le (Finite 2) (Finite 4)" by simp_all
  from psnr_monotone [OF a b c e f g, of "\<lambda>d. ''4''" module_state None] a b c e f g
  show ?thesis by blast
qed

text \<open>
  The claim as stated covers every data range and every mean squared error that is not
  zero. For the data range \<open>-1\<close> the logarithm of the data range is not-a-number, so both
  values are not-a-number, and not-a-number is not less than or equal to itself. For
  \<^verbatim>\<open>int64\<close> arrays the squares wrap around and the mean can be negative: with the data
  range 4, the pair \<^verbatim>\<open>[4000000000]\<close>, \<^verbatim>\<open>[0]\<close> has the mean squared error
  \<open>-2446744073709551616\<close>, which is not zero and less than the mean squared error 1 of the
  pair \<^verbatim>\<open>[0]\<close>, \<^verbatim>\<open>[1]\<close>; its logarithm is not-a-number, and the value of the second pair
  is not less than or equal to not-a-number.
\<close>

theorem psnr_negative_range_counterexample:
  "(MSEMeasure_apply (NdArray (IntArray Int64 [0])) (NdArray (IntArray Int64 [1])) = Inr (Finite 1) \<and>
    MSEMeasure_apply (NdArray (IntArray Int64 [0])) (NdArray (IntArray Int64 [2])) = Inr (Finite 4) \<and>
    \<not> pf_eq (Finite 1) (Finite 0) \<and> \<not> pf_eq (Finite 4) (Finite 0) \<and> pf_le (Finite 1) (Finite 4) \<and>
    PSNRMeasure_apply (snd (new_PSNRMeasure (\<lambda>d. ''-1'') module_state (Some (- 1)) None))
      (NdArray (IntArray Int64 [0])) (NdArray (IntArray Int64 [1])) = Inr NaN \<and>
    PSNRMeasure_apply (snd (new_PSNRMeasure (\<lambda>d. ''-1'') module_state (Some (- 1)) None))
      (NdArray (IntArray Int64 [0])) (NdArray (IntArray Int64 [2])) = Inr NaN \<and>
    \<not> pf_le NaN NaN) \<and>
   (MSEMeasure_apply (NdArray (IntArray Int64 [4000000000])) (NdArray (IntArray Int64 [0])) =
      Inr (Finite (- 2446744073709551616)) \<and>
    MSEMeasure_apply (NdArray (IntArray Int64 [0])) (NdArray (IntArray Int64 [1])) = Inr (Finite 1) \<and>
    \<not> pf_eq (Finite (- 2446744073709551616)) (Finite 0) \<and> \<not> pf_eq (Finite 1) (Finite 0) \<and>
    pf_le (Finite (- 2446744073709551616)) (Finite 1) \<and>
    PSNRMeasure_apply (snd (new_PSNRMeasure (\<lambda>d. ''4'') module_state (Some 4) None))
      (NdArray (IntArray Int64 [4000000000])) (NdArray (IntArray Int64 [0])) = Inr NaN \<and>
    PSNRMeasure_apply (snd (new_PSNRMeasure (\<lambda>d. ''4'') module_state (Some 4) None))
      (NdArray (IntArray Int64 [0])) (NdArray (IntArray Int64 [1])) = Inr (Finite (20 * log 10 4)) \<and>
    \<not> pf_le (Finite (20 * log 10 4)) NaN)"
  by (simp add: MSEMeasure_apply_def PSNRMeasure_apply_def broadcast2_def np_mean_def wrap_def
      result_type_def psnr_data_range_def psnr_value_def pf_minus_def)

text \<open>
  For the data range 0 the range of each ground truth is used instead, and a pair with
  the same error and a wider ground truth has the larger value.
\<close>

lemma psnr_zero_range_not_monotone:
  "MSEMeasure_apply (NdArray (IntArray Int64 [1, 1])) (NdArray (IntArray Int64 [0, 1])) = Inr (Finite (1 / 2)) \<and>
   MSEMeasure_apply (NdArray (IntArray Int64 [1, 10])) (NdArray (IntArray Int64 [0, 10])) = Inr (Finite (1 / 2)) \<and>
   PSNRMeasure_apply (snd (new_PSNRMeasure fmt st (Some 0) sn))
     (NdArray (IntArray Int64 [1, 1])) (NdArray (IntArray Int64 [0, 1])) =
     Inr (Finite (- 10 * log 10 (1 / 2))) \<and>
   PSNRMeasure_apply (snd (new_PSNRMeasure fmt st (Some 0) sn))
     (NdArray (IntArray Int64 [1, 10])) (NdArray (IntArray Int64 [0, 10])) =
     Inr (Finite (20 - 10 * log 10 (1 / 2))) \<and>
   \<not> pf_le (Finite (20 - 10 * log 10 (1 / 2))) (Finite (- 10 * log 10 (1 / 2)))"
  by (simp add: MSEMeasure_apply_def PSNRMeasure_apply_def broadcast2_def np_mean_def wrap_def result_type_def
      psnr_data_range_def psnr_value_def pf_minus_def np_max_def np_min_def)

subsection \<open>The operator for a fixed ground truth\<close>

text \<open>
  Claim C8, amended: for every measure \<open>m\<close>, every ground truth \<open>g\<close> that is an element of
  a space, and every reconstruction \<open>r\<close> that is an element of the same space,
  \<^verbatim>\<open>m.as_operator_for_fixed_ground_truth(g)\<close> returns an operator, and applying it to \<open>r\<close>
  gives the result of \<^verbatim>\<open>m.apply(r, g)\<close>, an error included; for the built-in measures
  \<^verbatim>\<open>L2\<close>, \<^verbatim>\<open>MSE\<close>, \<^verbatim>\<open>PSNR\<close> and \<^verbatim>\<open>SSIM\<close> this is the \<^verbatim>\<open>apply\<close> of their classes.
\<close>

theorem operator_for_fixed_ground_truth_applies:
  assumes "length rs = length gs"
  shows "(\<exists>op. as_operator_for_fixed_ground_truth m (OdlElement gs) = Inr op \<and>
            operator_call ss op (OdlElement rs) =
              Measure_apply ss m (OdlElement rs) (OdlElement gs)) \<and>
         (\<exists>op. as_operator_for_fixed_ground_truth L2 (OdlElement gs) = Inr op \<and>
            operator_call ss op (OdlElement rs) =
              L2Measure_apply (OdlElement rs) (OdlElement gs)) \<and>
         (\<exists>op. as_operator_for_fixed_ground_truth MSE (OdlElement gs) = Inr op \<and>
            operator_call ss op (OdlElement rs) =
              MSEMeasure_apply (OdlElement rs) (OdlElement gs)) \<and>
         (\<exists>op. as_operator_for_fixed_ground_truth PSNR (OdlElement gs) = Inr op \<and>
            operator_call ss op (OdlElement rs) =
              PSNRMeasure_apply PSNR (OdlElement rs) (OdlElement gs)) \<and>
         (\<exists>op. as_operator_for_fixed_ground_truth SSIM (OdlElement gs) = Inr op \<and>
            operator_call ss op (OdlElement rs) =
              SSIMMeasure_apply ss SSIM (OdlElement rs) (OdlElement gs))"
proof -
  have gen: "\<exists>op. as_operator_for_fixed_ground_truth x (OdlElement gs) = Inr op \<and>
      operator_call ss op (OdlElement rs) = Measure_apply ss x (OdlElement rs) (OdlElement gs)"
    for x
    using assms
    by (simp add: as_operator_for_fixed_ground_truth_def operator_call_def operator__call_def)
  have l2: "Measure_apply ss L2 a b = L2Measure_apply a b" for a b
    by (simp add: Measure_apply_def module_instances_eval L2Measure_def)
  have mse: "Measure_apply ss MSE a b = MSEMeasure_apply a b" for a b
    by (simp add: Measure_apply_def module_instances_eval MSEMeasure_def)
  have psnr: "Measure_apply ss PSNR a b = PSNRMeasure_apply PSNR a b" for a b
    by (simp add: Measure_apply_def module_instances_eval PSNRMeasure_def)
  have ssim: "Measure_apply ss SSIM a b = SSIMMeasure_apply ss SSIM a b" for a b
    by (simp add: Measure_apply_def module_instances_eval SSIMMeasure_def)
  from gen [of m] gen [of L2] gen [of MSE] gen [of PSNR] gen [of SSIM]
  show ?thesis by (simp only: l2 mse psnr ssim)
qed

theorem operator_for_fixed_ground_truth_applies_witness:
  "length [1, 1, 1 :: real] = length [0, 0, 0 :: real] \<and>
   (\<exists>op. as_operator_for_fixed_ground_truth L2 (OdlElement [0, 0, 0]) = Inr op \<and>
      operator_call (\<lambda>r g d k. Inl TypeError) op (OdlElement [1, 1, 1]) = Inr (Finite (sqrt 3))) \<and>
   L2Measure_apply (OdlElement [1, 1, 1]) (OdlElement [0, 0, 0]) = Inr (Finite (sqrt 3))"
proof -
  have a: "length [1, 1, 1 :: real] = length [0, 0, 0 :: real]" by simp
  have v: "L2Measure_apply (OdlElement [1, 1, 1]) (OdlElement [0, 0, 0]) = Inr (Finite (sqrt 3))"
    by (simp add: L2Measure_apply_def float_subtract_def broadcast2_def np_linalg_norm_def)
  note t = operator_for_fixed_ground_truth_applies [OF a, of L2 "\<lambda>r g d k. Inl TypeError",
      THEN conjunct2, THEN conjunct1]
  from t v a show ?thesis by simp
qed

text \<open>
  The claim as stated covers every ground truth. For a ground truth that is an array,
  which \<^verbatim>\<open>apply\<close> accepts, the operator cannot be built: line 127 reads
  \<^verbatim>\<open>ground_truth.space\<close> and raises \<^verbatim>\<open>AttributeError\<close>.
\<close>

theorem operator_needs_space_counterexample:
  "as_operator_for_fixed_ground_truth L2 (NdArray (IntArray Int64 [0, 0, 0])) = Inl AttributeError \<and>
   Measure_apply (\<lambda>r g d k. Inl TypeError) L2 (NdArray (IntArray Int64 [1, 1, 1]))
     (NdArray (IntArray Int64 [0, 0, 0])) = Inr (Finite (sqrt 3))"
  by (simp add: as_operator_for_fixed_ground_truth_def Measure_apply_def module_instances_eval
      L2Measure_def L2Measure_apply_def broadcast2_def np_linalg_norm_def wrap_def result_type_def)

text \<open>
  The claim as stated also covers every reconstruction. An element of another space is
  refused by the operator, while \<^verbatim>\<open>apply\<close> broadcasts an array of one element; an array of
  the size of the domain is cast to an element before \<^verbatim>\<open>_call\<close> receives it.
\<close>

lemma operator_rejects_other_shape:
  "as_operator_for_fixed_ground_truth L2 (OdlElement [0, 0, 0]) =
     Inr \<lparr>op_domain = 3, op_measure = L2, op_ground_truth = OdlElement [0, 0, 0]\<rparr> \<and>
   operator_call ss \<lparr>op_domain = 3, op_measure = L2, op_ground_truth = OdlElement [0, 0, 0]\<rparr>
     (OdlElement [1]) = Inl OpDomainError \<and>
   Measure_apply ss L2 (OdlElement [1]) (OdlElement [0, 0, 0]) = Inr (Finite (sqrt 3))"
  by (simp add: as_operator_for_fixed_ground_truth_def operator_call_def Measure_apply_def
      module_instances_eval L2Measure_def L2Measure_apply_def float_subtract_def broadcast2_def
      np_linalg_norm_def)

lemma operator_casts_array:
  assumes "np_size a = length gs"
  shows "operator_call ss \<lparr>op_domain = length gs, op_measure = m, op_ground_truth = OdlElement gs\<rparr>
           (NdArray a) = Measure_apply ss m (OdlElement (to_float a)) (OdlElement gs)"
  using assms by (simp add: operator_call_def operator__call_def)

subsection \<open>A data range of zero\<close>

text \<open>
  Claim C10. An instance of \<^verbatim>\<open>PSNRMeasure\<close> constructed with the data range 0 ignores it:
  where the mean squared error is not zero, the data range used is the maximum of the
  ground truth minus its minimum (taken in the element type for an integer array; an error
  when the ground truth is empty); for the ground truth \<^verbatim>\<open>[1,5]\<close> and the reconstruction
  \<^verbatim>\<open>[1,1]\<close> the data range used is 4 and the mean squared error is 8. An instance of
  \<^verbatim>\<open>SSIMMeasure\<close> constructed with the data range 0 passes 0 to
  \<^verbatim>\<open>structural_similarity\<close>.
\<close>

theorem zero_data_range_psnr_ssim:
  "PSNRMeasure_apply (snd (new_PSNRMeasure fmt st (Some 0) sn)) r g =
     (case np_subtract (np_asarray r) (np_asarray g) of
        Inl e \<Rightarrow> Inl e
      | Inr diff \<Rightarrow>
          if pf_eq (np_mean (np_square diff)) (Finite 0) then Inr PInf
          else (case np_asarray g of
                  IntArray t a \<Rightarrow>
                    if a = [] then Inl ValueError
                    else Inr (psnr_value (real_of_int (wrap t (Max (set a) - Min (set a))))
                           (np_mean (np_square diff)))
                | FloatArray b \<Rightarrow>
                    if b = [] then Inl ValueError
                    else Inr (psnr_value (Max (set b) - Min (set b))
                           (np_mean (np_square diff))))) \<and>
   PSNRMeasure_apply (snd (new_PSNRMeasure fmt st (Some 0) sn))
     (NdArray (IntArray Int64 [1, 1])) (NdArray (IntArray Int64 [1, 5])) =
     Inr (Finite (20 * log 10 4 - 10 * log 10 8)) \<and>
   SSIMMeasure_apply ss (snd (new_SSIMMeasure fmt' st' sn' (Some 0) kw)) r g =
     ss r (np_asarray g) 0 (AList.delete ''data_range'' kw)"
proof (intro conjI)
  have dr: "psnr_data_range (snd (new_PSNRMeasure fmt st (Some 0) sn)) gt = gt_range gt" for gt
    by (simp add: psnr_data_range_def)
  show "PSNRMeasure_apply (snd (new_PSNRMeasure fmt st (Some 0) sn)) r g =
     (case np_subtract (np_asarray r) (np_asarray g) of
        Inl e \<Rightarrow> Inl e
      | Inr diff \<Rightarrow>
          if pf_eq (np_mean (np_square diff)) (Finite 0) then Inr PInf
          else (case np_asarray g of
                  IntArray t a \<Rightarrow>
                    if a = [] then Inl ValueError
                    else Inr (psnr_value (real_of_int (wrap t (Max (set a) - Min (set a))))
                           (np_mean (np_square diff)))
                | FloatArray b \<Rightarrow>
                    if b = [] then Inl ValueError
                    else Inr (psnr_value (Max (set b) - Min (set b))
                           (np_mean (np_square diff)))))"
    by (cases "np_asarray g")
       (simp_all add: PSNRMeasure_apply_def Let_def dr gt_range_Max_Min del: gt_range.simps
          split: sum.splits)
  show "PSNRMeasure_apply (snd (new_PSNRMeasure fmt st (Some 0) sn))
     (NdArray (IntArray Int64 [1, 1])) (NdArray (IntArray Int64 [1, 5])) =
     Inr (Finite (20 * log 10 4 - 10 * log 10 8))"
    by (simp add: PSNRMeasure_apply_def broadcast2_def np_mean_def wrap_def result_type_def
        psnr_data_range_def np_max_def np_min_def psnr_value_def pf_minus_def)
  have "ssim_data_range (snd (new_SSIMMeasure fmt' st' sn' (Some 0) kw)) gt = Inr 0" for gt
    by (simp add: ssim_data_range_def)
  then show "SSIMMeasure_apply ss (snd (new_SSIMMeasure fmt' st' sn' (Some 0) kw)) r g =
     ss r (np_asarray g) 0 (AList.delete ''data_range'' kw)"
    by (simp add: SSIMMeasure_apply_def)
qed

end
